theory Spec2Isabelle
  imports Complex_Main
begin

section \<open>Python values, exceptions and external calls\<close>

text \<open>
  The repository consists of three notebooks: the Factor Transfer notebook
  (\<^verbatim>\<open>FactorTransfer.ipynb\<close>), the ChipNet notebook and the BitSplit notebook (both in
  \<^verbatim>\<open>trailmet.ipynb\<close>). Each is a straight-line Python script whose statements call
  into torch, torchvision, yaml, tqdm, numpy, sklearn and the trailmet library.

  Values are Python objects. Data (what \<^verbatim>\<open>yaml.safe_load\<close> builds, and the literals of
  the notebooks) is modelled structurally; an instance of a library class (a tensor, a
  model, a data loader, a file) is an opaque object \<open>PObj\<close>, a named constant of a
  module (\<^verbatim>\<open>torch.float\<close>) is \<open>PName\<close>. A float is represented by the rational it
  denotes. A dict is an association list in insertion order.
\<close>

datatype pyval =
    PNone
  | PBool bool
  | PInt int
  | PFloat rat
  | PStr string
  | PList "pyval list"
  | PTuple "pyval list"
  | PDict "(pyval \<times> pyval) list"
  | PObj nat
  | PName string

datatype error =
    KeyError pyval
  | TypeError
  | ValueError
  | IndexError
  | AttributeError
  | AssertionError string
  | Raised string

text \<open>
  Everything a notebook does outside the Python data model is an event: an import, a
  call of a library function or constructor (by the name the notebook uses), a method
  call on an object, a shell command or directory magic (\<^verbatim>\<open>!git pull\<close>,
  \<^verbatim>\<open>cd\<close>, \<^verbatim>\<open>mkdir\<close>: IPython prints their failure and raises nothing), the
  display of a cell's last expression, and an exception raised by a statement of the
  notebook itself (a subscript, an unpacking, an \<^verbatim>\<open>assert\<close>, a \<^verbatim>\<open>**\<close> expansion).
\<close>

datatype event =
    Import string "string list"
  | Call string "pyval list" "(string \<times> pyval) list"
  | Method pyval string "pyval list" "(string \<times> pyval) list"
  | Shell string
  | Display pyval
  | PyRaise

text \<open>
  The environment answers the \<open>n\<close>-th event of a run with a value or with an exception.
  A run is a function of the environment; it returns the outcome and the log of the
  events with their answers, in order.
\<close>

type_synonym response = "error + pyval"
type_synonym world = "nat \<Rightarrow> event \<Rightarrow> response"
type_synonym log = "(event \<times> response) list"
type_synonym 'a nb = "world \<Rightarrow> log \<Rightarrow> (error + 'a) \<times> log"

definition ret :: "'a \<Rightarrow> 'a nb" where
  "ret x w tr = (Inr x, tr)"

definition raise :: "error \<Rightarrow> 'a nb" where
  "raise e w tr = (Inl e, tr @ [(PyRaise, Inl e)])"

definition lift :: "error + 'a \<Rightarrow> 'a nb" where
  \<comment> \<open>the outcome of a Python operation on data\<close>
  "lift r = (case r of Inl e \<Rightarrow> raise e | Inr x \<Rightarrow> ret x)"

definition bnd :: "'a nb \<Rightarrow> ('a \<Rightarrow> 'b nb) \<Rightarrow> 'b nb" where
  "bnd m f w tr =
     (case m w tr of
        (Inl e, tr') \<Rightarrow> (Inl e, tr')
      | (Inr x, tr') \<Rightarrow> f x w tr')"

definition call :: "event \<Rightarrow> pyval nb" where
  "call ev w tr = (w (length tr) ev, tr @ [(ev, w (length tr) ev)])"

definition shell :: "string \<Rightarrow> unit nb" where
  \<comment> \<open>the command runs; whatever it answers, no exception reaches the notebook\<close>
  "shell cmd w tr = (Inr (), tr @ [(Shell cmd, w (length tr) (Shell cmd))])"

definition display :: "pyval \<Rightarrow> unit nb" where
  \<comment> \<open>IPython shows the value of a cell's last expression unless it is None\<close>
  "display v = (if v = PNone then ret () else bnd (call (Display v)) (\<lambda>_. ret ()))"

fun exec :: "pyval nb list \<Rightarrow> unit nb" where
  "exec [] = ret ()"
| "exec (m # ms) = bnd m (\<lambda>_. exec ms)"

definition ensuring :: "'a nb \<Rightarrow> pyval nb \<Rightarrow> 'a nb" where
  \<comment> \<open>the exit of a \<^verbatim>\<open>with\<close> block: it runs after the body however the body ends\<close>
  "ensuring m fin w tr =
     (case m w tr of (r, tr1) \<Rightarrow>
        (case fin w tr1 of
           (Inl e, tr2) \<Rightarrow> (Inl e, tr2)
         | (Inr _, tr2) \<Rightarrow> (r, tr2)))"

definition with_ctx :: "pyval \<Rightarrow> (pyval \<Rightarrow> 'a nb) \<Rightarrow> 'a nb" where
  \<comment> \<open>\<^verbatim>\<open>with cm as v: body\<close>, for a context manager whose exit does not suppress
      exceptions (a file object, \<^verbatim>\<open>torch.no_grad()\<close>)\<close>
  "with_ctx cm body =
     bnd (call (Method cm ''__enter__'' [] [])) (\<lambda>v.
       ensuring (body v) (call (Method cm ''__exit__'' [] [])))"

section \<open>Python operations on data\<close>

text \<open>
  Dict keys are compared by hash and equality. \<open>hkey\<close> maps a hashable value to what
  that comparison sees: \<^verbatim>\<open>True\<close>, \<^verbatim>\<open>1\<close> and \<^verbatim>\<open>1.0\<close> are one key, a list or a
  dict is no key at all. An opaque object is its own key (identity).
\<close>

datatype hashkey = HNone | HNum rat | HStr string | HObj nat | HName string | HTuple "hashkey list"

fun hkey :: "pyval \<Rightarrow> hashkey option" where
  "hkey PNone = Some HNone"
| "hkey (PBool b) = Some (HNum (if b then 1 else 0))"
| "hkey (PInt i) = Some (HNum (of_int i))"
| "hkey (PFloat r) = Some (HNum r)"
| "hkey (PStr s) = Some (HStr s)"
| "hkey (PObj a) = Some (HObj a)"
| "hkey (PName a) = Some (HName a)"
| "hkey (PTuple xs) = map_option HTuple (those (map hkey xs))"
| "hkey (PList _) = None"
| "hkey (PDict _) = None"

definition hashable :: "pyval \<Rightarrow> bool" where
  "hashable x = (hkey x \<noteq> None)"

fun py_eq :: "pyval \<Rightarrow> pyval \<Rightarrow> bool" where
  \<comment> \<open>\<^verbatim>\<open>==\<close> on data\<close>
  "py_eq (PList xs) (PList ys) = list_all2 py_eq xs ys"
| "py_eq (PTuple xs) (PTuple ys) = list_all2 py_eq xs ys"
| "py_eq (PDict kvs) (PDict kws) =
     (length kvs = length kws \<and>
      (\<forall>(k, v) \<in> set kvs. \<exists>(k', v') \<in> set kws. hkey k = hkey k' \<and> py_eq v v'))"
| "py_eq x y = (hkey x \<noteq> None \<and> hkey x = hkey y)"

fun py_truth :: "pyval \<Rightarrow> bool" where
  "py_truth PNone = False"
| "py_truth (PBool b) = b"
| "py_truth (PInt i) = (i \<noteq> 0)"
| "py_truth (PFloat r) = (r \<noteq> 0)"
| "py_truth (PStr s) = (s \<noteq> [])"
| "py_truth (PList xs) = (xs \<noteq> [])"
| "py_truth (PTuple xs) = (xs \<noteq> [])"
| "py_truth (PDict kvs) = (kvs \<noteq> [])"
| "py_truth _ = True"

fun dict_get :: "(pyval \<times> pyval) list \<Rightarrow> pyval \<Rightarrow> pyval option" where
  "dict_get [] k = None"
| "dict_get ((k', v) # kvs) k = (if hkey k' = hkey k then Some v else dict_get kvs k)"

fun dict_set :: "(pyval \<times> pyval) list \<Rightarrow> pyval \<Rightarrow> pyval \<Rightarrow> (pyval \<times> pyval) list" where
  \<comment> \<open>an existing key keeps its place and its key object; a new key goes last\<close>
  "dict_set [] k v = [(k, v)]"
| "dict_set ((k', v') # kvs) k v =
     (if hkey k' = hkey k then (k', v) # kvs else (k', v') # dict_set kvs k v)"

fun dict_update :: "(pyval \<times> pyval) list \<Rightarrow> (pyval \<times> pyval) list \<Rightarrow> (pyval \<times> pyval) list" where
  "dict_update kvs [] = kvs"
| "dict_update kvs ((k, v) # new) = dict_update (dict_set kvs k v) new"

definition ebind :: "error + 'a \<Rightarrow> ('a \<Rightarrow> error + 'b) \<Rightarrow> error + 'b" where
  "ebind r f = (case r of Inl e \<Rightarrow> Inl e | Inr x \<Rightarrow> f x)"

definition seq_index :: "'a list \<Rightarrow> pyval \<Rightarrow> error + 'a" where
  \<comment> \<open>indexing a sequence: an int or a bool, negative from the end\<close>
  "seq_index xs k =
     (case (case k of PInt i \<Rightarrow> Some i | PBool b \<Rightarrow> Some (if b then 1 else 0) | _ \<Rightarrow> None) of
        None \<Rightarrow> Inl TypeError
      | Some i \<Rightarrow>
          (if i < - int (length xs) \<or> int (length xs) \<le> i then Inl IndexError
           else Inr (xs ! nat (if i < 0 then i + int (length xs) else i))))"

fun py_getitem :: "pyval \<Rightarrow> pyval \<Rightarrow> error + pyval" where
  \<comment> \<open>\<^verbatim>\<open>v[k]\<close> on data\<close>
  "py_getitem (PDict kvs) k =
     (if hashable k
      then (case dict_get kvs k of None \<Rightarrow> Inl (KeyError k) | Some v \<Rightarrow> Inr v)
      else Inl TypeError)"
| "py_getitem (PList xs) k = seq_index xs k"
| "py_getitem (PTuple xs) k = seq_index xs k"
| "py_getitem (PStr s) k = map_sum id (\<lambda>c. PStr [c]) (seq_index s k)"
| "py_getitem _ k = Inl TypeError"

fun substring :: "string \<Rightarrow> string \<Rightarrow> bool" where
  "substring t [] = (t = [])"
| "substring t (c # s) = (take (length t) (c # s) = t \<or> substring t s)"

fun py_contains :: "pyval \<Rightarrow> pyval \<Rightarrow> error + bool" where
  \<comment> \<open>\<^verbatim>\<open>x in c\<close>, the container \<^verbatim>\<open>c\<close> first\<close>
  "py_contains (PDict kvs) x =
     (if hashable x then Inr (dict_get kvs x \<noteq> None) else Inl TypeError)"
| "py_contains (PList xs) x = Inr (list_ex (\<lambda>y. py_eq y x) xs)"
| "py_contains (PTuple xs) x = Inr (list_ex (\<lambda>y. py_eq y x) xs)"
| "py_contains (PStr s) x = (case x of PStr t \<Rightarrow> Inr (substring t s) | _ \<Rightarrow> Inl TypeError)"
| "py_contains _ x = Inl TypeError"

fun as_pair :: "pyval \<Rightarrow> error + (pyval \<times> pyval)" where
  \<comment> \<open>an element of the sequence given to \<^verbatim>\<open>dict.update\<close>: any iterable of length two\<close>
  "as_pair (PList [k, v]) = (if hashable k then Inr (k, v) else Inl TypeError)"
| "as_pair (PTuple [k, v]) = (if hashable k then Inr (k, v) else Inl TypeError)"
| "as_pair (PStr [c, d]) = Inr (PStr [c], PStr [d])"
| "as_pair (PDict [(k, _), (k', _)]) = Inr (k, k')"
| "as_pair (PList _) = Inl ValueError"
| "as_pair (PTuple _) = Inl ValueError"
| "as_pair (PStr _) = Inl ValueError"
| "as_pair (PDict _) = Inl ValueError"
| "as_pair _ = Inl TypeError"

fun update_pairs :: "(pyval \<times> pyval) list \<Rightarrow> pyval list \<Rightarrow> error + (pyval \<times> pyval) list" where
  "update_pairs kvs [] = Inr kvs"
| "update_pairs kvs (x # xs) =
     (case as_pair x of
        Inl e \<Rightarrow> Inl e
      | Inr (k, v) \<Rightarrow> update_pairs (dict_set kvs k v) xs)"

fun py_update :: "pyval \<Rightarrow> pyval \<Rightarrow> error + pyval" where
  \<comment> \<open>\<^verbatim>\<open>d.update(x)\<close>, returning the updated \<^verbatim>\<open>d\<close>\<close>
  "py_update (PDict kvs) (PDict new) = Inr (PDict (dict_update kvs new))"
| "py_update (PDict kvs) (PList xs) = map_sum id PDict (update_pairs kvs xs)"
| "py_update (PDict kvs) (PTuple xs) = map_sum id PDict (update_pairs kvs xs)"
| "py_update (PDict kvs) (PStr s) = (if s = [] then Inr (PDict kvs) else Inl ValueError)"
| "py_update (PDict kvs) _ = Inl TypeError"
| "py_update _ _ = Inl AttributeError"

fun py_setitem :: "pyval \<Rightarrow> pyval \<Rightarrow> pyval \<Rightarrow> error + pyval" where
  \<comment> \<open>\<^verbatim>\<open>d[k] = v\<close>, returning the updated \<^verbatim>\<open>d\<close>; the notebooks assign to string keys only\<close>
  "py_setitem (PDict kvs) k v = (if hashable k then Inr (PDict (dict_set kvs k v)) else Inl TypeError)"
| "py_setitem _ k v = Inl TypeError"

fun str_keys :: "(pyval \<times> pyval) list \<Rightarrow> error + (string \<times> pyval) list" where
  "str_keys [] = Inr []"
| "str_keys ((PStr s, v) # kvs) = map_sum id (\<lambda>r. (s, v) # r) (str_keys kvs)"
| "str_keys (_ # kvs) = Inl TypeError"

fun py_kwargs :: "pyval \<Rightarrow> error + (string \<times> pyval) list" where
  \<comment> \<open>\<^verbatim>\<open>**m\<close> in a call: a dict whose keys are all strings\<close>
  "py_kwargs (PDict kvs) = str_keys kvs"
| "py_kwargs _ = Inl TypeError"

definition str_dict :: "(string \<times> pyval) list \<Rightarrow> pyval" where
  \<comment> \<open>a dict literal with string keys\<close>
  "str_dict kvs = PDict (map (\<lambda>(k, v). (PStr k, v)) kvs)"

section \<open>Operations that dispatch on the object\<close>

definition getitem :: "pyval \<Rightarrow> pyval \<Rightarrow> pyval nb" where
  \<comment> \<open>\<^verbatim>\<open>v[k]\<close>: the built-in containers answer themselves, an object's class answers for it\<close>
  "getitem v k =
     (case v of
        PObj _ \<Rightarrow> call (Method v ''__getitem__'' [k] [])
      | _ \<Rightarrow> lift (py_getitem v k))"

definition iterate :: "pyval \<Rightarrow> pyval list nb" where
  \<comment> \<open>the items an iterable yields; an object's iteration is answered by the environment
      with the finite sequence of its items\<close>
  "iterate v =
     (case v of
        PList xs \<Rightarrow> ret xs
      | PTuple xs \<Rightarrow> ret xs
      | PStr s \<Rightarrow> ret (map (\<lambda>c. PStr [c]) s)
      | PDict kvs \<Rightarrow> ret (map fst kvs)
      | PObj _ \<Rightarrow>
          bnd (call (Method v ''__iter__'' [] [])) (\<lambda>r.
            case r of PList xs \<Rightarrow> ret xs | PTuple xs \<Rightarrow> ret xs | _ \<Rightarrow> raise TypeError)
      | _ \<Rightarrow> raise TypeError)"

definition unpack2 :: "pyval \<Rightarrow> (pyval \<times> pyval) nb" where
  \<comment> \<open>\<^verbatim>\<open>a, b = v\<close>\<close>
  "unpack2 v =
     bnd (iterate v) (\<lambda>xs. case xs of [a, b] \<Rightarrow> ret (a, b) | _ \<Rightarrow> raise ValueError)"

definition py_format :: "pyval \<Rightarrow> string \<Rightarrow> string nb" where
  \<comment> \<open>an interpolation \<^verbatim>\<open>{v:spec}\<close> of an f-string: a string with no format is itself,
      anything else is formatted by its class\<close>
  "py_format v spec =
     (case v of
        PStr s \<Rightarrow>
          (if spec = [] then ret s
           else bnd (call (Call ''format'' [v, PStr spec] [])) (\<lambda>r.
                  case r of PStr t \<Rightarrow> ret t | _ \<Rightarrow> raise TypeError))
      | _ \<Rightarrow>
          bnd (call (Call ''format'' [v, PStr spec] [])) (\<lambda>r.
            case r of PStr t \<Rightarrow> ret t | _ \<Rightarrow> raise TypeError))"

section \<open>The Factor Transfer notebook\<close>

text \<open>
  One definition per code cell of \<^verbatim>\<open>FactorTransfer.ipynb\<close>, named by the cell's
  execution count. A cell takes the variables it reads and returns the ones it binds.
\<close>

definition ft_cell3 :: "unit nb" where
  "ft_cell3 = exec
     [call (Import ''sys'' []),
      call (Call ''sys.path.append'' [PStr ''../../''] []),
      call (Import ''torch'' []),
      call (Import ''torchvision'' []),
      call (Import ''torch.nn'' []),
      call (Import ''torch.nn.functional'' []),
      call (Import ''torchvision'' [''transforms'']),
      call (Import ''torch.utils.data'' [''DataLoader'']),
      call (Import ''torch.hub'' [''load_state_dict_from_url'']),
      call (Import ''tqdm'' [''tqdm'']),
      call (Import ''sklearn.metrics'' [''accuracy_score'']),
      call (Import ''numpy'' []),
      call (Import ''yaml'' []),
      call (Import ''trailmet.algorithms.distill.factor_transfer'' [''FactorTransfer'']),
      call (Import ''trailmet.datasets.classification'' [''DatasetFactory'']),
      call (Import ''trailmet.models.resnet'' [''get_resnet_model''])]"

definition ft_cell4 :: "pyval nb" where
  \<comment> \<open>\<^verbatim>\<open>device = torch.device('cuda:0' if torch.cuda.is_available() else 'cpu')\<close>\<close>
  "ft_cell4 =
     bnd (call (Call ''torch.cuda.is_available'' [] [])) (\<lambda>avail.
     call (Call ''torch.device'' [PStr (if py_truth avail then ''cuda:0'' else ''cpu'')] []))"

definition ft_cell5 :: "(pyval \<times> pyval) nb" where
  \<comment> \<open>returns \<^verbatim>\<open>transforms1\<close> and \<^verbatim>\<open>target_transforms\<close>\<close>
  "ft_cell5 =
     bnd (call (Call ''transforms.ToTensor'' [] [])) (\<lambda>t1.
     bnd (call (Call ''transforms.Pad'' [PInt 4] [(''padding_mode'', PStr ''reflect'')])) (\<lambda>t2.
     bnd (call (Call ''transforms.RandomHorizontalFlip'' [] [(''p'', PFloat 0.5)])) (\<lambda>t3.
     bnd (call (Call ''transforms.RandomCrop'' [PInt 32] [])) (\<lambda>t4.
     bnd (call (Call ''transforms.Normalize''
            [PTuple [PFloat 0.4914, PFloat 0.4822, PFloat 0.4465],
             PTuple [PFloat 0.247, PFloat 0.243, PFloat 0.261]] [])) (\<lambda>t5.
     bnd (call (Call ''transforms.Compose'' [PList [t1, t2, t3, t4, t5]] [])) (\<lambda>transform_train.
     bnd (call (Call ''transforms.ToTensor'' [] [])) (\<lambda>u1.
     bnd (call (Call ''transforms.Normalize''
            [PTuple [PFloat 0.4914, PFloat 0.4822, PFloat 0.4465],
             PTuple [PFloat 0.247, PFloat 0.243, PFloat 0.261]] [])) (\<lambda>u2.
     bnd (call (Call ''transforms.Compose'' [PList [u1, u2]] [])) (\<lambda>transform_test.
     ret (str_dict [(''train'', transform_train), (''val'', transform_test), (''test'', transform_test)],
          str_dict [(''train'', PNone), (''val'', PNone), (''test'', PNone)]))))))))))"

definition ft_cell6 :: "pyval \<Rightarrow> pyval \<Rightarrow> pyval nb" where
  \<comment> \<open>returns \<^verbatim>\<open>cifar_dataset\<close>\<close>
  "ft_cell6 transforms1 target_transforms =
     call (Call ''DatasetFactory.create_dataset'' []
       [(''name'', PStr ''CIFAR10''),
        (''root'', PStr ''./data''),
        (''split_types'', PList [PStr ''train'', PStr ''val'', PStr ''test'']),
        (''val_fraction'', PFloat 0.1),
        (''transform'', transforms1),
        (''target_transform'', target_transforms),
        (''random_seed'', PInt 42)])"

definition ft_loader :: "pyval \<Rightarrow> string \<Rightarrow> string \<Rightarrow> pyval nb" where
  \<comment> \<open>one \<^verbatim>\<open>torch.utils.data.DataLoader(cifar_dataset[d], batch_size=128,
      sampler=cifar_dataset[s], num_workers=2)\<close>\<close>
  "ft_loader cifar_dataset d s =
     bnd (getitem cifar_dataset (PStr d)) (\<lambda>ds.
     bnd (getitem cifar_dataset (PStr s)) (\<lambda>sm.
     call (Call ''torch.utils.data.DataLoader'' [ds]
       [(''batch_size'', PInt 128), (''sampler'', sm), (''num_workers'', PInt 2)])))"

definition ft_cell7 :: "pyval \<Rightarrow> (pyval \<times> pyval) nb" where
  \<comment> \<open>returns \<^verbatim>\<open>test_loader\<close> and \<^verbatim>\<open>dataloaders\<close>\<close>
  "ft_cell7 cifar_dataset =
     bnd (ft_loader cifar_dataset ''train_dataset'' ''train_sampler'') (\<lambda>train_loader.
     bnd (ft_loader cifar_dataset ''val_dataset'' ''val_sampler'') (\<lambda>val_loader.
     bnd (ft_loader cifar_dataset ''test_dataset'' ''test_sampler'') (\<lambda>test_loader.
     ret (test_loader,
          str_dict [(''train'', train_loader), (''val'', val_loader), (''test'', test_loader)]))))"

definition ft_cell8 :: "pyval \<Rightarrow> (pyval \<times> pyval) nb" where
  \<comment> \<open>returns \<^verbatim>\<open>teacher_model\<close> and \<^verbatim>\<open>student_model\<close>\<close>
  "ft_cell8 device =
     bnd (call (Call ''get_resnet_model'' [PStr ''resnet50'', PInt 100, PInt 32, PBool False] [])) (\<lambda>teacher_model.
     bnd (call (Call ''get_resnet_model'' [PStr ''resnet18'', PInt 100, PInt 32, PBool False] [])) (\<lambda>student_model.
     bnd (call (Method teacher_model ''to'' [device] [])) (\<lambda>_.
     bnd (call (Method student_model ''to'' [device] [])) (\<lambda>shown.
     bnd (display shown) (\<lambda>_.
     ret (teacher_model, student_model))))))"

definition ft_cell9 :: "pyval \<Rightarrow> unit nb" where
  "ft_cell9 teacher_model =
     bnd (call (Call ''torch.load'' [PStr ''./resnet50_cifar100_pretrained.pth''] [])) (\<lambda>ckpt.
     bnd (getitem ckpt (PStr ''state_dict'')) (\<lambda>weights.
     bnd (call (Method teacher_model ''load_state_dict'' [weights] [])) (\<lambda>shown.
     display shown)))"

definition ft_cell10 :: "pyval nb" where
  \<comment> \<open>returns \<^verbatim>\<open>data_loaded\<close>\<close>
  "ft_cell10 =
     bnd (bnd (call (Call ''open'' [PStr ''./resnet50-resnet18.yaml'', PStr ''r''] [])) (\<lambda>f.
          with_ctx f (\<lambda>stream. call (Call ''yaml.safe_load'' [stream] [])))) (\<lambda>data_loaded.
     bnd (display data_loaded) (\<lambda>_.
     ret data_loaded))"

definition ft_cell11 :: "pyval \<Rightarrow> pyval \<Rightarrow> pyval \<Rightarrow> pyval \<Rightarrow> pyval nb" where
  \<comment> \<open>returns \<^verbatim>\<open>distillation_box\<close>\<close>
  "ft_cell11 teacher_model student_model dataloaders data_loaded =
     bnd (lift (py_kwargs data_loaded)) (\<lambda>kw.
     call (Call ''FactorTransfer'' [teacher_model, student_model, dataloaders] kw))"

definition ft_cell12 :: "pyval \<Rightarrow> unit nb" where
  "ft_cell12 distillation_box =
     bnd (call (Method distillation_box ''compress_model'' [] [])) (\<lambda>shown.
     display shown)"

definition ft_batch :: "pyval \<Rightarrow> pyval \<Rightarrow> pyval \<Rightarrow> (pyval \<times> pyval) nb" where
  \<comment> \<open>the body of the test loop for one item of the iteration; returns what is appended
      to \<^verbatim>\<open>preds\<close> and to \<^verbatim>\<open>valid_labels\<close>\<close>
  "ft_batch device student_model item =
     bnd (unpack2 item) (\<lambda>(step, batch).
     bnd (unpack2 batch) (\<lambda>(images0, labels0).
     bnd (call (Method images0 ''to'' [device] [(''dtype'', PName ''torch.float'')])) (\<lambda>images.
     bnd (call (Method labels0 ''to'' [device] [])) (\<lambda>labels.
     bnd (call (Method labels ''size'' [PInt 0] [])) (\<lambda>batch_size.
     bnd (bnd (call (Call ''torch.no_grad'' [] [])) (\<lambda>cm.
          with_ctx cm (\<lambda>_. call (Method student_model ''__call__'' [images] [])))) (\<lambda>y_preds.
     bnd (call (Method y_preds ''softmax'' [PInt 1] [])) (\<lambda>p1.
     bnd (call (Method p1 ''to'' [PStr ''cpu''] [])) (\<lambda>p2.
     bnd (call (Method p2 ''numpy'' [] [])) (\<lambda>p3.
     bnd (call (Method labels ''to'' [PStr ''cpu''] [])) (\<lambda>l1.
     bnd (call (Method l1 ''numpy'' [] [])) (\<lambda>l2.
     ret (p3, l2))))))))))))"

fun ft_test_loop :: "pyval \<Rightarrow> pyval \<Rightarrow> pyval list \<Rightarrow> pyval list \<Rightarrow> pyval list \<Rightarrow> (pyval list \<times> pyval list) nb" where
  "ft_test_loop device student_model [] preds valid_labels = ret (preds, valid_labels)"
| "ft_test_loop device student_model (item # items) preds valid_labels =
     bnd (ft_batch device student_model item) (\<lambda>(p, l).
     ft_test_loop device student_model items (preds @ [p]) (valid_labels @ [l]))"

definition ft_cell13 :: "pyval \<Rightarrow> pyval \<Rightarrow> pyval \<Rightarrow> pyval \<Rightarrow> pyval nb" where
  \<comment> \<open>returns \<^verbatim>\<open>score\<close>\<close>
  "ft_cell13 device student_model test_loader data_loaded =
     bnd (lift (py_getitem data_loaded (PStr ''log_dir''))) (\<lambda>log_dir.
     bnd (py_format log_dir []) (\<lambda>s.
     bnd (call (Call ''torch.load'' [PStr (''./checkpoints/'' @ s @ ''.pth'')] [])) (\<lambda>ckpt.
     bnd (getitem ckpt (PStr ''state_dict'')) (\<lambda>sd.
     bnd (call (Method student_model ''load_state_dict'' [sd] [])) (\<lambda>_.
     bnd (call (Method student_model ''eval'' [] [])) (\<lambda>_.
     bnd (call (Call ''enumerate'' [test_loader] [])) (\<lambda>en.
     bnd (call (Call ''len'' [test_loader] [])) (\<lambda>total.
     bnd (call (Call ''tqdm'' [en] [(''total'', total)])) (\<lambda>bar.
     bnd (iterate bar) (\<lambda>items.
     bnd (ft_test_loop device student_model items [] []) (\<lambda>(preds, valid_labels0).
     bnd (call (Call ''np.concatenate'' [PList preds] [])) (\<lambda>predictions.
     bnd (call (Call ''np.concatenate'' [PList valid_labels0] [])) (\<lambda>valid_labels.
     bnd (call (Method predictions ''argmax'' [PInt 1] [])) (\<lambda>am.
     call (Call ''accuracy_score'' [valid_labels, am] [])))))))))))))))"

definition run_factor_transfer :: "pyval nb" where
  \<comment> \<open>the cells in order; returns \<^verbatim>\<open>score\<close>\<close>
  "run_factor_transfer =
     bnd ft_cell3 (\<lambda>_.
     bnd ft_cell4 (\<lambda>device.
     bnd ft_cell5 (\<lambda>(transforms1, target_transforms).
     bnd (ft_cell6 transforms1 target_transforms) (\<lambda>cifar_dataset.
     bnd (ft_cell7 cifar_dataset) (\<lambda>(test_loader, dataloaders).
     bnd (ft_cell8 device) (\<lambda>(teacher_model, student_model).
     bnd (ft_cell9 teacher_model) (\<lambda>_.
     bnd ft_cell10 (\<lambda>data_loaded.
     bnd (ft_cell11 teacher_model student_model dataloaders data_loaded) (\<lambda>distillation_box.
     bnd (ft_cell12 distillation_box) (\<lambda>_.
     ft_cell13 device student_model test_loader data_loaded))))))))))"

section \<open>The ChipNet notebook\<close>

text \<open>
  The first notebook of \<^verbatim>\<open>trailmet.ipynb\<close>. Its cells carry no execution count; they
  are named by their position. Cells 0 and 2 are comments, cells 6 and 11 bind a string,
  cell 21 is empty.
\<close>

definition cn_root :: string where
  "cn_root = ''/content/trailmet/experiments/chipnet''"

definition cn_pretrained_weights :: string where
  "cn_pretrained_weights = ''https://download.pytorch.org/models/resnet18-f37072fd.pth''"

definition cn_cell1 :: "unit nb" where
  "cn_cell1 = shell ''cd trailmet''"

definition cn_cell3 :: "unit nb" where
  "cn_cell3 = shell ''git pull''"

definition cn_cell4 :: "unit nb" where
  "cn_cell4 = exec
     [call (Import ''torch'' []),
      call (Import ''matplotlib.pyplot'' []),
      call (Import ''torchvision'' [''transforms'']),
      call (Import ''trailmet.models'' [''ModelsFactory'']),
      call (Import ''trailmet.datasets.classification'' [''DatasetFactory''])]"

definition cn_cell5 :: "unit nb" where
  "cn_cell5 = exec [call (Import ''yaml'' [])]"

definition cn_cell7 :: "unit nb" where
  \<comment> \<open>the \<^verbatim>\<open>%%writefile\<close> magic, with the lines of the cell\<close>
  "cn_cell7 = exec
     [call (Call ''%%writefile''
        [PStr ''experiments/chipnet/resnet50_cifar10.yaml'',
         PList [PStr ''CHIPNET_ARGS:'', PStr ''    A: 10'', PStr [],
                PStr ''PRETRAIN:'', PStr ''    EPOCHS: 1'', PStr [],
                PStr ''PRUNE:'', PStr ''    EPOCHS: 1'', PStr [],
                PStr ''FINETUNE:'', PStr ''    EPOCHS: 2'']] [])]"

definition cn_cell8 :: "pyval nb" where
  \<comment> \<open>returns \<^verbatim>\<open>data_loaded\<close>\<close>
  "cn_cell8 =
     bnd (call (Import ''os'' [])) (\<lambda>_.
     bnd (call (Call ''os.path.join'' [PStr cn_root, PStr ''resnet50_cifar10.yaml''] [])) (\<lambda>path.
     bnd (call (Call ''open'' [path, PStr ''r''] [])) (\<lambda>f.
     with_ctx f (\<lambda>stream. call (Call ''yaml.safe_load'' [stream] [])))))"

definition cn_cell9 :: "pyval \<Rightarrow> unit nb" where
  "cn_cell9 data_loaded = exec [call (Call ''print'' [data_loaded] [])]"

definition cn_cell10 :: "pyval nb" where
  \<comment> \<open>returns \<^verbatim>\<open>model\<close>\<close>
  "cn_cell10 =
     call (Call ''ModelsFactory.create_model'' [PStr ''resnet18'', PInt 10, PBool False]
       [(''insize'', PInt 32)])"

definition cn_cell12 :: "pyval nb" where
  \<comment> \<open>returns \<^verbatim>\<open>weights\<close>\<close>
  "cn_cell12 =
     bnd (call (Import ''torch.hub'' [''load_state_dict_from_url''])) (\<lambda>_.
     call (Call ''load_state_dict_from_url'' [PStr cn_pretrained_weights] []))"

definition cn_cell13 :: "unit nb" where
  "cn_cell13 = exec [call (Import ''trailmet.datasets.classification'' [''DatasetFactory''])]"

definition cn_cell14 :: "unit nb" where
  "cn_cell14 = shell ''mkdir /content/data_dir''"

definition cn_cell15 :: "pyval nb" where
  \<comment> \<open>returns \<^verbatim>\<open>cifar_dataset\<close>; the three \<^verbatim>\<open>def\<close>s of the cell bind functions that
      nothing calls\<close>
  "cn_cell15 =
     bnd (call (Call ''transforms.ToTensor'' [] [])) (\<lambda>t1.
     bnd (call (Call ''transforms.Compose'' [PList [t1]] [])) (\<lambda>train_transform.
     bnd (call (Call ''transforms.ToTensor'' [] [])) (\<lambda>t2.
     bnd (call (Call ''transforms.Compose'' [PList [t2]] [])) (\<lambda>val_transform.
     bnd (call (Call ''transforms.ToTensor'' [] [])) (\<lambda>t3.
     bnd (call (Call ''transforms.Compose'' [PList [t3]] [])) (\<lambda>test_transform.
     call (Call ''DatasetFactory.create_dataset'' []
       [(''name'', PStr ''CIFAR10''),
        (''root'', PStr ''/content/data_dir''),
        (''split_types'', PList [PStr ''train'', PStr ''val'', PStr ''test'']),
        (''val_fraction'', PFloat 0.2),
        (''transform'', str_dict [(''train'', train_transform), (''val'', val_transform),
                                  (''test'', test_transform)]),
        (''target_transform'', str_dict [(''train'', PNone), (''val'', PNone), (''test'', PNone)])])))))))"

definition cn_loader :: "pyval \<Rightarrow> string \<Rightarrow> string \<Rightarrow> pyval nb" where
  \<comment> \<open>one \<^verbatim>\<open>torch.utils.data.DataLoader(cifar_dataset[d], batch_size=64,
      sampler=cifar_dataset[s], num_workers=0)\<close>\<close>
  "cn_loader cifar_dataset d s =
     bnd (getitem cifar_dataset (PStr d)) (\<lambda>ds.
     bnd (getitem cifar_dataset (PStr s)) (\<lambda>sm.
     call (Call ''torch.utils.data.DataLoader'' [ds]
       [(''batch_size'', PInt 64), (''sampler'', sm), (''num_workers'', PInt 0)])))"

definition cn_cell16 :: "pyval \<Rightarrow> (pyval \<times> pyval \<times> pyval) nb" where
  \<comment> \<open>returns \<^verbatim>\<open>train_loader\<close>, \<^verbatim>\<open>val_loader\<close> and \<^verbatim>\<open>test_loader\<close>\<close>
  "cn_cell16 cifar_dataset =
     bnd (cn_loader cifar_dataset ''train_dataset'' ''train_sampler'') (\<lambda>train_loader.
     bnd (cn_loader cifar_dataset ''val_dataset'' ''val_sampler'') (\<lambda>val_loader.
     bnd (cn_loader cifar_dataset ''test_dataset'' ''test_sampler'') (\<lambda>test_loader.
     ret (train_loader, val_loader, test_loader))))"

definition cn_cell17 :: "unit nb" where
  "cn_cell17 = exec [call (Import ''trailmet.algorithms.prune.chipnet'' [''ChipNet''])]"

definition cn_cell18 :: "pyval \<Rightarrow> pyval \<Rightarrow> pyval \<Rightarrow> pyval \<Rightarrow> pyval \<Rightarrow> pyval nb" where
  \<comment> \<open>returns \<^verbatim>\<open>a\<close>\<close>
  "cn_cell18 model train_loader val_loader test_loader data_loaded =
     bnd (lift (py_kwargs data_loaded)) (\<lambda>kw.
     call (Call ''ChipNet''
       [model, str_dict [(''train'', train_loader), (''val'', val_loader), (''test'', test_loader)]]
       kw))"

definition cn_cell19 :: "pyval \<Rightarrow> unit nb" where
  "cn_cell19 a =
     bnd (call (Method a ''compress_model'' [] [])) (\<lambda>shown.
     display shown)"

fun py_int :: "pyval \<Rightarrow> int" where
  "py_int (PInt i) = i"
| "py_int (PBool b) = (if b then 1 else 0)"
| "py_int _ = 0"

definition cn_cell20 :: "unit nb" where
  \<comment> \<open>\<^verbatim>\<open>sum([0,0,True])\<close>, a sum of ints and a bool\<close>
  "cn_cell20 = display (PInt (sum_list (map py_int [PInt 0, PInt 0, PBool True])))"

definition run_chipnet :: "unit nb" where
  "run_chipnet =
     bnd cn_cell1 (\<lambda>_.
     bnd cn_cell3 (\<lambda>_.
     bnd cn_cell4 (\<lambda>_.
     bnd cn_cell5 (\<lambda>_.
     bnd cn_cell7 (\<lambda>_.
     bnd cn_cell8 (\<lambda>data_loaded.
     bnd (cn_cell9 data_loaded) (\<lambda>_.
     bnd cn_cell10 (\<lambda>model.
     bnd cn_cell12 (\<lambda>weights.
     bnd cn_cell13 (\<lambda>_.
     bnd cn_cell14 (\<lambda>_.
     bnd cn_cell15 (\<lambda>cifar_dataset.
     bnd (cn_cell16 cifar_dataset) (\<lambda>(train_loader, val_loader, test_loader).
     bnd cn_cell17 (\<lambda>_.
     bnd (cn_cell18 model train_loader val_loader test_loader data_loaded) (\<lambda>a.
     bnd (cn_cell19 a) (\<lambda>_.
     cn_cell20))))))))))))))))"

section \<open>The BitSplit notebook\<close>

text \<open>
  The second notebook of \<^verbatim>\<open>trailmet.ipynb\<close>; its code cells are named by their
  execution count.
\<close>

definition bs_cell1 :: "unit nb" where
  "bs_cell1 = exec
     [call (Import ''sys'' []),
      call (Call ''sys.path.append'' [PStr ''./trail/trailmet/''] [])]"

definition bs_cell3 :: "unit nb" where
  "bs_cell3 = exec
     [call (Import ''yaml'' []),
      call (Import ''torch'' []),
      call (Import ''torch.utils.data'' [''DataLoader'']),
      call (Import ''torchvision'' [''transforms'']),
      call (Import ''trailmet.datasets.classification'' [''DatasetFactory'']),
      call (Import ''trailmet.models'' [''resnet'', ''mobilenet'']),
      call (Import ''trailmet.algorithms'' [''quantize''])]"

definition bs_stats :: "pyval list" where
  \<comment> \<open>\<^verbatim>\<open>stats\<close>, as the arguments \<^verbatim>\<open>*stats\<close> expands to\<close>
  "bs_stats =
     [PTuple [PFloat 0.5071, PFloat 0.4867, PFloat 0.4408],
      PTuple [PFloat 0.2675, PFloat 0.2565, PFloat 0.2761]]"

definition bs_cell4 :: "(pyval \<times> pyval) nb" where
  \<comment> \<open>returns \<^verbatim>\<open>input_transforms\<close> and \<^verbatim>\<open>target_transforms\<close>\<close>
  "bs_cell4 =
     bnd (call (Call ''transforms.RandomCrop'' [PInt 32]
            [(''padding'', PInt 4), (''padding_mode'', PStr ''reflect'')])) (\<lambda>t1.
     bnd (call (Call ''transforms.RandomHorizontalFlip'' [] [])) (\<lambda>t2.
     bnd (call (Call ''transforms.ToTensor'' [] [])) (\<lambda>t3.
     bnd (call (Call ''transforms.Normalize'' bs_stats [(''inplace'', PBool True)])) (\<lambda>t4.
     bnd (call (Call ''transforms.Compose'' [PList [t1, t2, t3, t4]] [])) (\<lambda>train_transform.
     bnd (call (Call ''transforms.ToTensor'' [] [])) (\<lambda>u1.
     bnd (call (Call ''transforms.Normalize'' bs_stats [])) (\<lambda>u2.
     bnd (call (Call ''transforms.Compose'' [PList [u1, u2]] [])) (\<lambda>val_transform.
     bnd (call (Call ''transforms.ToTensor'' [] [])) (\<lambda>v1.
     bnd (call (Call ''transforms.Normalize'' bs_stats [])) (\<lambda>v2.
     bnd (call (Call ''transforms.Compose'' [PList [v1, v2]] [])) (\<lambda>test_transform.
     ret (str_dict [(''train'', train_transform), (''val'', val_transform), (''test'', test_transform)],
          str_dict [(''train'', PNone), (''val'', PNone), (''test'', PNone)]))))))))))))"

definition bs_print_size :: "pyval \<Rightarrow> string \<Rightarrow> string \<Rightarrow> pyval nb" where
  \<comment> \<open>\<^verbatim>\<open>print(label, cifar100_dataset['info'][k])\<close>\<close>
  "bs_print_size cifar100_dataset label k =
     bnd (getitem cifar100_dataset (PStr ''info'')) (\<lambda>info.
     bnd (getitem info (PStr k)) (\<lambda>n.
     call (Call ''print'' [PStr label, n] [])))"

definition bs_cell5 :: "pyval \<Rightarrow> pyval \<Rightarrow> pyval nb" where
  \<comment> \<open>returns \<^verbatim>\<open>cifar100_dataset\<close>\<close>
  "bs_cell5 input_transforms target_transforms =
     bnd (call (Call ''DatasetFactory.create_dataset'' []
            [(''name'', PStr ''CIFAR100''),
             (''root'', PStr ''./data''),
             (''split_types'', PList [PStr ''train'', PStr ''val'', PStr ''test'']),
             (''val_fraction'', PFloat 0.2),
             (''transform'', input_transforms),
             (''target_transform'', target_transforms)])) (\<lambda>cifar100_dataset.
     bnd (bs_print_size cifar100_dataset ''Train samples: '' ''train_size'') (\<lambda>_.
     bnd (bs_print_size cifar100_dataset ''Val samples: '' ''val_size'') (\<lambda>_.
     bnd (bs_print_size cifar100_dataset ''Test samples: '' ''test_size'') (\<lambda>_.
     ret cifar100_dataset))))"

definition bs_loader :: "pyval \<Rightarrow> string \<Rightarrow> string \<Rightarrow> pyval nb" where
  \<comment> \<open>one \<^verbatim>\<open>DataLoader(cifar100_dataset[d], batch_size=128,
      sampler=cifar100_dataset[s], num_workers=0)\<close>\<close>
  "bs_loader cifar100_dataset d s =
     bnd (getitem cifar100_dataset (PStr d)) (\<lambda>ds.
     bnd (getitem cifar100_dataset (PStr s)) (\<lambda>sm.
     call (Call ''DataLoader'' [ds]
       [(''batch_size'', PInt 128), (''sampler'', sm), (''num_workers'', PInt 0)])))"

definition bs_print_len :: "pyval \<Rightarrow> string \<Rightarrow> string \<Rightarrow> pyval nb" where
  \<comment> \<open>\<^verbatim>\<open>print(label, len(dataloaders[k]))\<close>\<close>
  "bs_print_len dataloaders label k =
     bnd (getitem dataloaders (PStr k)) (\<lambda>loader.
     bnd (call (Call ''len'' [loader] [])) (\<lambda>n.
     call (Call ''print'' [PStr label, n] [])))"

definition bs_cell6 :: "pyval \<Rightarrow> pyval nb" where
  \<comment> \<open>returns \<^verbatim>\<open>dataloaders\<close>\<close>
  "bs_cell6 cifar100_dataset =
     bnd (bs_loader cifar100_dataset ''train'' ''train_sampler'') (\<lambda>train_loader.
     bnd (bs_loader cifar100_dataset ''val'' ''val_sampler'') (\<lambda>val_loader.
     bnd (bs_loader cifar100_dataset ''test'' ''test_sampler'') (\<lambda>test_loader.
     bnd (ret (str_dict [(''train'', train_loader), (''val'', val_loader), (''test'', test_loader)])) (\<lambda>dataloaders.
     bnd (bs_print_len dataloaders ''No. of training batches: '' ''train'') (\<lambda>_.
     bnd (bs_print_len dataloaders ''No. of validation batches: '' ''val'') (\<lambda>_.
     bnd (bs_print_len dataloaders ''No. of test batches: '' ''test'') (\<lambda>_.
     ret dataloaders)))))))"

definition bs_cell7 :: "pyval nb" where
  \<comment> \<open>returns \<^verbatim>\<open>res50_model\<close>\<close>
  "bs_cell7 =
     bnd (call (Call ''resnet.make_resnet50'' [PInt 100, PInt 32] [])) (\<lambda>res50_model.
     bnd (call (Call ''torch.load'' [PStr ''./weights/resnet50_cifar100_pretrained.pth'']
            [(''map_location'', PStr ''cuda:0'')])) (\<lambda>checkpoint.
     bnd (getitem checkpoint (PStr ''state_dict'')) (\<lambda>sd.
     bnd (call (Method res50_model ''load_state_dict'' [sd] [])) (\<lambda>shown.
     bnd (display shown) (\<lambda>_.
     ret res50_model)))))"

definition bs_select :: "pyval \<Rightarrow> error + pyval" where
  \<comment> \<open>the statements of the \<^verbatim>\<open>with\<close> block after the file is parsed:
      \<^verbatim>\<open>kwargs = config['GENERAL']\<close>, the \<^verbatim>\<open>assert\<close>, and
      \<^verbatim>\<open>kwargs.update(config['W_ARGS'][kwargs['W_BUDGET']])\<close>; returns \<^verbatim>\<open>kwargs\<close>\<close>
  "bs_select config =
     ebind (py_getitem config (PStr ''GENERAL'')) (\<lambda>kwargs.
     ebind (py_getitem kwargs (PStr ''W_BUDGET'')) (\<lambda>budget.
     ebind (py_getitem config (PStr ''W_ARGS'')) (\<lambda>w_args.
     ebind (py_contains w_args budget) (\<lambda>supported.
     if \<not> supported then Inl (AssertionError ''given weight budget not supported'')
     else
     ebind (py_getitem config (PStr ''W_ARGS'')) (\<lambda>w_args'.
     ebind (py_getitem kwargs (PStr ''W_BUDGET'')) (\<lambda>budget'.
     ebind (py_getitem w_args' budget') (\<lambda>chosen.
     py_update kwargs chosen)))))))"


definition bs_cell8 :: "pyval nb" where
  \<comment> \<open>returns \<^verbatim>\<open>kwargs\<close>\<close>
  "bs_cell8 =
     bnd (bnd (call (Call ''open'' [PStr ''./bitsplit_config.yaml'', PStr ''r''] [])) (\<lambda>cm.
          with_ctx cm (\<lambda>f.
            bnd (call (Call ''yaml.safe_load'' [f] [])) (\<lambda>config.
            lift (bs_select config))))) (\<lambda>kwargs0.
     bnd (lift (py_setitem kwargs0 (PStr ''CALIB_BATCHES'') (PInt 2))) (\<lambda>kwargs.
     bnd (display kwargs) (\<lambda>_.
     ret kwargs)))"

definition bs_test :: "pyval \<Rightarrow> pyval \<Rightarrow> pyval \<Rightarrow> pyval nb" where
  \<comment> \<open>\<^verbatim>\<open>acc1, acc5 = quantizer.test(model=m, dataloader=dataloaders['test'],
      device=torch.device('cuda:0'))\<close> and the \<^verbatim>\<open>print\<close> of both with \<^verbatim>\<open>.2f\<close>\<close>
  "bs_test quantizer m dataloaders =
     bnd (getitem dataloaders (PStr ''test'')) (\<lambda>loader.
     bnd (call (Call ''torch.device'' [PStr ''cuda:0''] [])) (\<lambda>device.
     bnd (call (Method quantizer ''test'' []
            [(''model'', m), (''dataloader'', loader), (''device'', device)])) (\<lambda>res.
     bnd (unpack2 res) (\<lambda>(acc1, acc5).
     bnd (py_format acc1 ''.2f'') (\<lambda>s1.
     bnd (py_format acc5 ''.2f'') (\<lambda>s5.
     call (Call ''print'' [PStr (''top-1 acc: '' @ s1 @ ''%, top-5 acc: '' @ s5 @ ''%'')] [])))))))"

definition bs_cell9 :: "pyval \<Rightarrow> pyval \<Rightarrow> pyval \<Rightarrow> (pyval \<times> pyval) nb" where
  \<comment> \<open>returns \<^verbatim>\<open>quantizer\<close> and \<^verbatim>\<open>qmodel\<close>\<close>
  "bs_cell9 res50_model dataloaders kwargs =
     bnd (lift (py_kwargs kwargs)) (\<lambda>kw.
     bnd (call (Call ''quantize.bitsplit.BitSplit'' [res50_model, dataloaders] kw)) (\<lambda>quantizer.
     bnd (call (Call ''print'' [PStr ''testing pretrained model before quantization''] [])) (\<lambda>_.
     bnd (bs_test quantizer res50_model dataloaders) (\<lambda>_.
     bnd (call (Method quantizer ''compress_model'' [] [])) (\<lambda>qmodel.
     ret (quantizer, qmodel))))))"

definition bs_cell10 :: "pyval \<Rightarrow> pyval \<Rightarrow> pyval \<Rightarrow> pyval nb" where
  "bs_cell10 quantizer qmodel dataloaders =
     bnd (call (Call ''print'' [PStr ''testing quantized model''] [])) (\<lambda>_.
     bs_test quantizer qmodel dataloaders)"

definition run_bitsplit :: "pyval nb" where
  "run_bitsplit =
     bnd bs_cell1 (\<lambda>_.
     bnd bs_cell3 (\<lambda>_.
     bnd bs_cell4 (\<lambda>(input_transforms, target_transforms).
     bnd (bs_cell5 input_transforms target_transforms) (\<lambda>cifar100_dataset.
     bnd (bs_cell6 cifar100_dataset) (\<lambda>dataloaders.
     bnd bs_cell7 (\<lambda>res50_model.
     bnd bs_cell8 (\<lambda>kwargs.
     bnd (bs_cell9 res50_model dataloaders kwargs) (\<lambda>(quantizer, qmodel).
     bs_cell10 quantizer qmodel dataloaders))))))))"

section \<open>Observing a run\<close>

definition completes :: "'a nb \<Rightarrow> world \<Rightarrow> bool" where
  \<comment> \<open>the notebook, started on an empty log, runs to its last cell\<close>
  "completes m w = (\<not> isl (fst (m w [])))"

definition log_of :: "'a nb \<Rightarrow> world \<Rightarrow> log" where
  "log_of m w = snd (m w [])"

definition select :: "(event \<Rightarrow> bool) \<Rightarrow> log \<Rightarrow> log" where
  "select P tr = filter (\<lambda>entry. P (fst entry)) tr"

definition named :: "string list \<Rightarrow> event \<Rightarrow> bool" where
  "named ns ev =
     (case ev of
        Call n _ _ \<Rightarrow> n \<in> set ns
      | Method _ n _ _ \<Rightarrow> n \<in> set ns
      | _ \<Rightarrow> False)"

definition emits :: "(event \<Rightarrow> bool) \<Rightarrow> 'a nb \<Rightarrow> bool" where
  \<comment> \<open>whatever the environment answers and wherever the run stops, every event is a \<open>P\<close>\<close>
  "emits P m = (\<forall>w tr. \<exists>seg. snd (m w tr) = tr @ seg \<and> list_all (\<lambda>entry. P (fst entry)) seg)"

definition getitem_log :: "pyval \<Rightarrow> pyval \<Rightarrow> pyval \<Rightarrow> log" where
  \<comment> \<open>what a successful \<^verbatim>\<open>v[k]\<close> with value \<open>x\<close> leaves in the log\<close>
  "getitem_log v k x =
     (case v of PObj _ \<Rightarrow> [(Method v ''__getitem__'' [k] [], Inr x)] | _ \<Rightarrow> [])"

definition entry_of :: "pyval \<Rightarrow> pyval \<Rightarrow> pyval \<Rightarrow> bool" where
  \<comment> \<open>\<open>x\<close> is \<^verbatim>\<open>v[k]\<close>: computed for data, as the log says for an object\<close>
  "entry_of v k x = (case v of PObj _ \<Rightarrow> True | _ \<Rightarrow> py_getitem v k = Inr x)"

definition aux_event :: "event \<Rightarrow> bool" where
  \<comment> \<open>the events of a display, an iteration or unpacking, and an f-string interpolation\<close>
  "aux_event ev =
     (case ev of
        Display _ \<Rightarrow> True
      | Method _ n _ _ \<Rightarrow> n = ''__iter__''
      | Call n _ _ \<Rightarrow> n = ''format''
      | _ \<Rightarrow> False)"

definition ft_batch_event :: "event \<Rightarrow> bool" where
  \<comment> \<open>the events of the body of the test loop\<close>
  "ft_batch_event ev =
     (case ev of
        Method _ n _ _ \<Rightarrow>
          n \<in> {''__iter__'', ''__enter__'', ''__exit__'', ''to'', ''size'', ''__call__'',
                ''softmax'', ''numpy''}
      | Call n _ _ \<Rightarrow> n = ''torch.no_grad''
      | _ \<Rightarrow> False)"

definition only :: "(event \<Rightarrow> bool) \<Rightarrow> log \<Rightarrow> bool" where
  \<comment> \<open>a piece of log whose events are all \<open>Q\<close> and all answered with a value\<close>
  "only Q seg = list_all (\<lambda>entry. Q (fst entry) \<and> \<not> isl (snd entry)) seg"

subsection \<open>The compression algorithm\<close>

definition algorithm_names :: "string list" where
  "algorithm_names = [''FactorTransfer'', ''ChipNet'', ''quantize.bitsplit.BitSplit'']"


definition glue_calls :: "string list" where
  "glue_calls =
     [''sys.path.append'', ''%%writefile'', ''os.path.join'', ''open'', ''yaml.safe_load'',
      ''print'', ''format'', ''len'', ''enumerate'', ''tqdm'',
      ''torch.cuda.is_available'', ''torch.device'', ''torch.load'', ''torch.no_grad'',
      ''load_state_dict_from_url'',
      ''transforms.ToTensor'', ''transforms.Pad'', ''transforms.RandomHorizontalFlip'',
      ''transforms.RandomCrop'', ''transforms.Normalize'', ''transforms.Compose'',
      ''DatasetFactory.create_dataset'', ''torch.utils.data.DataLoader'', ''DataLoader'',
      ''get_resnet_model'', ''ModelsFactory.create_model'', ''resnet.make_resnet50'',
      ''np.concatenate'', ''accuracy_score'']"

definition glue_methods :: "string list" where
  "glue_methods =
     [''__getitem__'', ''__iter__'', ''__enter__'', ''__exit__'', ''__call__'',
      ''to'', ''eval'', ''size'', ''softmax'', ''numpy'', ''argmax'', ''load_state_dict'']"

definition glue_imports :: "string list" where
  "glue_imports =
     [''sys'', ''os'', ''yaml'', ''numpy'', ''tqdm'', ''sklearn.metrics'', ''matplotlib.pyplot'',
      ''torch'', ''torch.nn'', ''torch.nn.functional'', ''torch.utils.data'', ''torch.hub'',
      ''torchvision'',
      ''trailmet.datasets.classification'', ''trailmet.models'', ''trailmet.models.resnet'',
      ''trailmet.algorithms'', ''trailmet.algorithms.distill.factor_transfer'',
      ''trailmet.algorithms.prune.chipnet'']"

definition glue_shell :: "string list" where
  "glue_shell = [''cd trailmet'', ''git pull'', ''mkdir /content/data_dir'']"

definition glue_event :: "event \<Rightarrow> bool" where
  \<comment> \<open>dataset construction, model construction, checkpoint loading, configuration,
      printing and evaluation: the functions, methods, modules and commands are listed; the
      display of a value and the raising of an exception belong to no step\<close>
  "glue_event ev =
     (case ev of
        Call n _ _ \<Rightarrow> n \<in> set glue_calls
      | Method _ n _ _ \<Rightarrow> n \<in> set glue_methods
      | Import m _ \<Rightarrow> m \<in> set glue_imports
      | Shell cmd \<Rightarrow> cmd \<in> set glue_shell
      | Display _ \<Rightarrow> True
      | PyRaise \<Rightarrow> True)"

definition object_event :: "event \<Rightarrow> bool" where
  \<comment> \<open>where the arguments of the constructor come from, and everything that is not glue:
      the creation of a model, of a loader, the parsing of the configuration, and every
      call and method call that \<open>glue_event\<close> does not list\<close>
  "object_event ev =
     (named [''get_resnet_model'', ''ModelsFactory.create_model'', ''resnet.make_resnet50'',
             ''torch.utils.data.DataLoader'', ''DataLoader'', ''yaml.safe_load''] ev
      \<or> \<not> glue_event ev)"

subsection \<open>The steps of a notebook\<close>

datatype step = BuildData | BuildModel | LoadWeights | ParseConfig | Construct | Compress | Evaluate

fun step_of :: "event \<Rightarrow> step option" where
  "step_of (Call n _ _) =
     (if n \<in> {''DatasetFactory.create_dataset'', ''torch.utils.data.DataLoader'', ''DataLoader''}
      then Some BuildData
      else if n \<in> {''get_resnet_model'', ''ModelsFactory.create_model'', ''resnet.make_resnet50''}
      then Some BuildModel
      else if n = ''yaml.safe_load'' then Some ParseConfig
      else if n \<in> set algorithm_names then Some Construct
      else if n = ''accuracy_score'' then Some Evaluate
      else None)"
| "step_of (Method _ n _ _) =
     (if n = ''load_state_dict'' then Some LoadWeights
      else if n = ''compress_model'' then Some Compress
      else if n = ''test'' then Some Evaluate
      else None)"
| "step_of _ = None"

definition steps :: "log \<Rightarrow> step list" where
  "steps tr = List.map_filter (\<lambda>entry. step_of (fst entry)) tr"




subsection \<open>Configuration\<close>

fun loaded_configs :: "log \<Rightarrow> pyval list" where
  \<comment> \<open>what \<^verbatim>\<open>yaml.safe_load\<close> returned\<close>
  "loaded_configs [] = []"
| "loaded_configs ((Call n _ _, Inr v) # tr) =
     (if n = ''yaml.safe_load'' then v # loaded_configs tr else loaded_configs tr)"
| "loaded_configs (_ # tr) = loaded_configs tr"

fun ctor_kwargs :: "log \<Rightarrow> (string \<times> pyval) list list" where
  \<comment> \<open>the keyword arguments of the algorithm constructors called\<close>
  "ctor_kwargs [] = []"
| "ctor_kwargs ((Call n _ kw, _) # tr) =
     (if n \<in> set algorithm_names then kw # ctor_kwargs tr else ctor_kwargs tr)"
| "ctor_kwargs (_ # tr) = ctor_kwargs tr"




subsection \<open>Exceptions\<close>

fun raised_by :: "event \<times> response \<Rightarrow> error option" where
  \<comment> \<open>the exception an event raised in the notebook; a shell command raises none\<close>
  "raised_by (Shell _, _) = None"
| "raised_by (_, Inl e) = Some e"
| "raised_by (_, Inr _) = None"

definition raised :: "log \<Rightarrow> error list" where
  "raised tr = List.map_filter raised_by tr"

definition failures :: "log \<Rightarrow> log" where
  \<comment> \<open>the events that raised, with the exception\<close>
  "failures tr = filter (\<lambda>entry. raised_by entry \<noteq> None) tr"

fun first_raise :: "log \<Rightarrow> (error \<times> log) option" where
  \<comment> \<open>the first exception of a log, and the log after it\<close>
  "first_raise [] = None"
| "first_raise (entry # tr) =
     (case raised_by entry of Some e \<Rightarrow> Some (e, tr) | None \<Rightarrow> first_raise tr)"

definition exit_event :: "event \<Rightarrow> bool" where
  \<comment> \<open>the exit of a \<^verbatim>\<open>with\<close> block\<close>
  "exit_event ev = (case ev of Method _ n a k \<Rightarrow> n = ''__exit__'' \<and> a = [] \<and> k = [] | _ \<Rightarrow> False)"

definition unhandled :: "(error + 'a) \<times> log \<Rightarrow> bool" where
  \<comment> \<open>nothing handles an exception: a run that ends normally raised nothing; after the
      first exception of a run nothing happens but the exits of the \<^verbatim>\<open>with\<close> blocks it
      leaves, and the run ends with that exception, or with the one an exit raised last\<close>
  "unhandled out =
     (case first_raise (snd out) of
        None \<Rightarrow> \<not> isl (fst out)
      | Some (e, rest) \<Rightarrow>
          list_all (\<lambda>entry. exit_event (fst entry)) rest \<and>
          fst out = Inl (last (e # raised rest)))"

definition no_handler :: "'a nb \<Rightarrow> bool" where
  \<comment> \<open>the same of a piece of a notebook, started on any log\<close>
  "no_handler m = (\<forall>w tr. \<exists>seg. snd (m w tr) = tr @ seg \<and> unhandled (fst (m w tr), seg))"

subsection \<open>Commands, files, datasets, the model\<close>

definition outward_event :: "event \<Rightarrow> bool" where
  \<comment> \<open>what a notebook itself does outside Python and its libraries: a shell command, a
      fetch from a URL, a file written by a cell magic\<close>
  "outward_event ev =
     (case ev of
        Shell _ \<Rightarrow> True
      | Call n _ _ \<Rightarrow> n \<in> {''load_state_dict_from_url'', ''%%writefile''}
      | _ \<Rightarrow> False)"

definition outside_event :: "event \<Rightarrow> bool" where
  \<comment> \<open>the same, the files a notebook opens or loads, and the call that runs the
      compression (which saves the checkpoint that Factor Transfer loads afterwards)\<close>
  "outside_event ev =
     (outward_event ev \<or>
      (case ev of
         Call n _ _ \<Rightarrow> n \<in> {''open'', ''torch.load''}
       | Method _ n _ _ \<Rightarrow> n = ''compress_model''
       | _ \<Rightarrow> False))"

definition split_keys :: "string list" where
  "split_keys =
     [''train_dataset'', ''val_dataset'', ''test_dataset'',
      ''train'', ''val'', ''test'',
      ''train_sampler'', ''val_sampler'', ''test_sampler'']"

definition data_event :: "event \<Rightarrow> bool" where
  \<comment> \<open>building the dataset, taking a split or its sampler out of it, building a loader,
      and constructing the algorithm object\<close>
  "data_event ev =
     (case ev of
        Call n _ _ \<Rightarrow>
          n \<in> {''DatasetFactory.create_dataset'', ''torch.utils.data.DataLoader'', ''DataLoader''}
          \<or> n \<in> set algorithm_names
      | Method _ n a _ \<Rightarrow> n = ''__getitem__'' \<and> (\<exists>k \<in> set split_keys. a = [PStr k])
      | _ \<Rightarrow> False)"

definition loader_log ::
  "string \<Rightarrow> pyval \<Rightarrow> string \<Rightarrow> string \<Rightarrow> int \<Rightarrow> int \<Rightarrow> pyval \<Rightarrow> pyval \<Rightarrow> pyval \<Rightarrow> log" where
  \<comment> \<open>the log of one loader: the split \<open>d\<close> and the sampler \<open>s\<close> are taken out of the
      dataset \<open>ds\<close>, and the loader is built from them\<close>
  "loader_log ctor ds dkey skey batch workers d s loader =
     getitem_log ds (PStr dkey) d @ getitem_log ds (PStr skey) s @
     [(Call ctor [d] [(''batch_size'', PInt batch), (''sampler'', s), (''num_workers'', PInt workers)],
       Inr loader)]"

definition dataset_call ::
  "string \<Rightarrow> string \<Rightarrow> rat \<Rightarrow> pyval \<Rightarrow> pyval \<Rightarrow> (string \<times> pyval) list \<Rightarrow> event" where
  \<comment> \<open>a call of \<^verbatim>\<open>DatasetFactory.create_dataset\<close> with the three splits and a
      validation fraction\<close>
  "dataset_call name dir val_fraction transform target_transform more =
     Call ''DatasetFactory.create_dataset'' []
       ([(''name'', PStr name),
         (''root'', PStr dir),
         (''split_types'', PList [PStr ''train'', PStr ''val'', PStr ''test'']),
         (''val_fraction'', PFloat val_fraction),
         (''transform'', transform),
         (''target_transform'', target_transform)] @ more)"

definition model_event :: "event \<Rightarrow> bool" where
  \<comment> \<open>in the ChipNet notebook: the creation of the model, the download, the constructor,
      and every method call that is not a subscript, an iteration or the entry or exit of
      a \<^verbatim>\<open>with\<close>\<close>
  "model_event ev =
     (case ev of
        Call n _ _ \<Rightarrow> n \<in> {''ModelsFactory.create_model'', ''load_state_dict_from_url'', ''ChipNet''}
      | Method _ n _ _ \<Rightarrow> n \<notin> {''__getitem__'', ''__enter__'', ''__exit__'', ''__iter__''}
      | _ \<Rightarrow> False)"

section \<open>Example environments\<close>

text \<open>
  The configurations are the ones the notebooks display. Every other call is answered
  with a new object, numbered by its position in the log.
\<close>

definition ft_config :: pyval where
  "ft_config = str_dict
     [(''DISTILL_ARGS'', str_dict
        [(''BETA'', PInt 500), (''EPOCHS'', PInt 5), (''LR'', PFloat 0.1),
         (''WEIGHT_DECAY'', PFloat 0.0005), (''IN_PLANES'', PInt 512), (''RATE'', PInt 2),
         (''TEACHER_LAYER_NAME'', PStr ''layer4''), (''STUDENT_LAYER_NAME'', PStr ''layer4''),
         (''VERBOSE'', PBool True)]),
      (''PARAPHRASER'', str_dict
        [(''IN_PLANES'', PInt 2048), (''RATE'', PFloat 0.5), (''EPOCHS'', PInt 1),
         (''LR'', PFloat 0.1), (''WEIGHT_DECAY'', PFloat 0.0005)]),
      (''log_dir'', PStr ''ft_resnet50-resnet18''),
      (''cuda_id'', PInt 0)]"

definition cn_config :: pyval where
  "cn_config = str_dict
     [(''CHIPNET_ARGS'', str_dict [(''A'', PInt 10)]),
      (''PRETRAIN'', str_dict [(''EPOCHS'', PInt 1)]),
      (''PRUNE'', str_dict [(''EPOCHS'', PInt 1)]),
      (''FINETUNE'', str_dict [(''EPOCHS'', PInt 2)])]"

definition bs_general :: "(pyval \<times> pyval) list" where
  \<comment> \<open>a \<^verbatim>\<open>GENERAL\<close> section that asks for 16 calibration batches\<close>
  "bs_general =
     [(PStr ''ARCH'', PStr ''ResNet50''), (PStr ''DATASET'', PStr ''CIFAR100''),
      (PStr ''GPU_ID'', PInt 0), (PStr ''SEED'', PInt 42), (PStr ''W_BUDGET'', PFloat 0.125),
      (PStr ''A_BITS'', PInt 8), (PStr ''ACT_QUANT'', PBool True),
      (PStr ''CHANNEL_WISE'', PBool True), (PStr ''CALIB_BATCHES'', PInt 16),
      (PStr ''SAVE_PATH'', PStr ''./scales/''), (PStr ''LOAD_ACT_SCALES'', PBool False),
      (PStr ''LOAD_WEIGHT_SCALES'', PBool False)]"

definition bs_config :: pyval where
  "bs_config = PDict
     [(PStr ''GENERAL'', PDict bs_general),
      (PStr ''W_ARGS'', PDict [(PFloat 0.125, PDict [(PStr ''W_BITS'', PInt 4)])])]"

definition bs_config_unsupported :: pyval where
  \<comment> \<open>the same file with a budget that \<^verbatim>\<open>W_ARGS\<close> does not list\<close>
  "bs_config_unsupported = PDict
     [(PStr ''GENERAL'', PDict (dict_set bs_general (PStr ''W_BUDGET'') (PFloat 0.5))),
      (PStr ''W_ARGS'', PDict [(PFloat 0.125, PDict [(PStr ''W_BITS'', PInt 4)])])]"


definition demo_world :: "pyval \<Rightarrow> pyval \<Rightarrow> world" where
  \<comment> \<open>the configuration file parses to \<open>cfg\<close>; \<^verbatim>\<open>compress_model\<close> returns
      \<open>compressed\<close>; the test loader yields one batch; a test returns two accuracies\<close>
  "demo_world cfg compressed n ev =
     (case ev of
        Call f _ _ \<Rightarrow>
          (if f = ''yaml.safe_load'' then Inr cfg
           else if f = ''torch.cuda.is_available'' then Inr (PBool True)
           else if f = ''format'' then Inr (PStr ''72.52'')
           else Inr (PObj n))
      | Method _ f _ _ \<Rightarrow>
          (if f = ''__iter__'' then Inr (PList [PTuple [PInt 0, PTuple [PObj 1000, PObj 1001]]])
           else if f = ''compress_model'' then Inr compressed
           else if f = ''test'' then Inr (PTuple [PFloat 72.52, PFloat 91.53])
           else Inr (PObj n))
      | _ \<Rightarrow> Inr (PObj n))"

definition missing_file_world :: world where
  \<comment> \<open>as \<open>demo_world ft_config PNone\<close>, but the checkpoint file is not there\<close>
  "missing_file_world n ev =
     (case ev of
        Call f _ _ \<Rightarrow>
          (if f = ''torch.load'' then Inl (Raised ''FileNotFoundError'')
           else demo_world ft_config PNone n ev)
      | _ \<Rightarrow> demo_world ft_config PNone n ev)"

section \<open>Runs that succeed\<close>

lemma completesE:
  assumes "completes m w"
  obtains r where "m w [] = (Inr r, log_of m w)"
  using assms unfolding completes_def log_of_def
  by (cases "m w []"; cases "fst (m w [])") auto

lemma bnd_okE:
  assumes "bnd m f w tr = (Inr y, tr')"
  obtains x tr1 where "m w tr = (Inr x, tr1)" and "f x w tr1 = (Inr y, tr')"
  using assms by (auto simp: bnd_def split: prod.splits sum.splits)

lemma ret_okD: "ret x w tr = (Inr y, tr') \<Longrightarrow> y = x \<and> tr' = tr"
  by (simp add: ret_def)

lemma raise_okD: "raise e w tr = (Inr y, tr') \<Longrightarrow> False"
  by (simp add: raise_def)

lemma lift_okD: "lift r w tr = (Inr y, tr') \<Longrightarrow> r = Inr y \<and> tr' = tr"
  by (cases r) (simp_all add: lift_def ret_def raise_def)

lemma call_okD: "call ev w tr = (Inr x, tr') \<Longrightarrow> tr' = tr @ [(ev, Inr x)]"
  by (auto simp: call_def)

lemma shell_okD: "shell cmd w tr = (Inr y, tr') \<Longrightarrow> \<exists>r. tr' = tr @ [(Shell cmd, r)]"
  by (auto simp: shell_def)

lemma exec_Cons_okE:
  assumes "exec (m # ms) w tr = (Inr y, tr')"
  obtains x tr1 where "m w tr = (Inr x, tr1)" and "exec ms w tr1 = (Inr y, tr')"
  using assms by (auto elim: bnd_okE)

lemma exec_Nil_okD: "exec [] w tr = (Inr y, tr') \<Longrightarrow> tr' = tr"
  by (simp add: ret_def)

lemma ensuring_okE:
  assumes "ensuring m fin w tr = (Inr y, tr')"
  obtains tr1 x where "m w tr = (Inr y, tr1)" and "fin w tr1 = (Inr x, tr')"
  using assms by (auto simp: ensuring_def split: prod.splits sum.splits)

lemma with_ctx_okE:
  assumes "with_ctx cm body w tr = (Inr y, tr')"
  obtains v tr1 x where
    "body v w (tr @ [(Method cm ''__enter__'' [] [], Inr v)]) = (Inr y, tr1)"
    and "tr' = tr1 @ [(Method cm ''__exit__'' [] [], Inr x)]"
  using assms unfolding with_ctx_def
  by (auto elim!: bnd_okE ensuring_okE dest!: call_okD)

lemma getitem_okD:
  "getitem v k w tr = (Inr x, tr') \<Longrightarrow> tr' = tr @ getitem_log v k x \<and> entry_of v k x"
  by (cases v)
     (auto simp: getitem_def getitem_log_def entry_of_def simp del: py_getitem.simps
           dest!: call_okD lift_okD)

lemma only_Nil [simp]: "only Q []"
  by (simp add: only_def)

lemma only_append [simp]: "only Q (a @ b) = (only Q a \<and> only Q b)"
  by (simp add: only_def)

lemma only_Cons [simp]: "only Q ((ev, r) # b) = (Q ev \<and> \<not> isl r \<and> only Q b)"
  by (simp add: only_def)

lemma only_mono: "only Q seg \<Longrightarrow> (\<And>ev. Q ev \<Longrightarrow> Q' ev) \<Longrightarrow> only Q' seg"
  by (induction seg) (auto simp: only_def)

lemma display_okD:
  "display v w tr = (Inr y, tr') \<Longrightarrow> \<exists>seg. tr' = tr @ seg \<and> only aux_event seg"
  by (auto simp: display_def aux_event_def dest!: call_okD ret_okD elim!: bnd_okE split: if_splits)

lemma iterate_okD:
  "iterate v w tr = (Inr xs, tr') \<Longrightarrow> \<exists>seg. tr' = tr @ seg \<and> only aux_event seg"
  by (cases v)
     (auto simp: iterate_def aux_event_def dest!: call_okD ret_okD raise_okD elim!: bnd_okE
           split: pyval.splits)

lemma unpack2_okD:
  "unpack2 v w tr = (Inr p, tr') \<Longrightarrow> \<exists>seg. tr' = tr @ seg \<and> only aux_event seg"
  unfolding unpack2_def
  by (auto dest!: iterate_okD ret_okD raise_okD elim!: bnd_okE split: list.splits)

lemma py_format_okD:
  "py_format v spec w tr = (Inr s, tr') \<Longrightarrow> \<exists>seg. tr' = tr @ seg \<and> only aux_event seg"
  by (cases v)
     (auto simp: py_format_def aux_event_def dest!: call_okD ret_okD raise_okD elim!: bnd_okE
           split: pyval.splits if_splits)

lemma py_format_str_okD:
  "py_format (PStr s) [] w tr = (Inr t, tr') \<Longrightarrow> t = s \<and> tr' = tr"
  by (simp add: py_format_def ret_def)

subsection \<open>Projections of a log\<close>

lemma named_simps [simp]:
  "named ns (Call n a k) = (n \<in> set ns)"
  "named ns (Method v n a k) = (n \<in> set ns)"
  "named ns (Import i j) = False"
  "named ns (Shell c) = False"
  "named ns (Display v) = False"
  "named ns PyRaise = False"
  by (simp_all add: named_def)

lemma select_Nil [simp]: "select P [] = []"
  by (simp add: select_def)

lemma select_append [simp]: "select P (a @ b) = select P a @ select P b"
  by (simp add: select_def)

lemma select_Cons [simp]:
  "select P ((ev, r) # b) = (if P ev then (ev, r) # select P b else select P b)"
  by (simp add: select_def)

lemma select_only: "only Q seg \<Longrightarrow> (\<And>ev. Q ev \<Longrightarrow> \<not> P ev) \<Longrightarrow> select P seg = []"
  by (induction seg) (auto simp: only_def select_def)

lemma select_getitem_log [simp]:
  "select P (getitem_log v k x) =
     (if P (Method v ''__getitem__'' [k] []) then getitem_log v k x else [])"
  by (cases v) (auto simp: getitem_log_def)

lemma steps_Nil [simp]: "steps [] = []"
  by (simp add: steps_def map_filter_simps)

lemma steps_append [simp]: "steps (a @ b) = steps a @ steps b"
  by (simp add: steps_def map_filter_def)

lemma steps_Cons [simp]:
  "steps ((ev, r) # b) = (case step_of ev of None \<Rightarrow> steps b | Some s \<Rightarrow> s # steps b)"
  by (simp add: steps_def map_filter_simps split: option.splits)

lemma steps_only: "only Q seg \<Longrightarrow> (\<And>ev. Q ev \<Longrightarrow> step_of ev = None) \<Longrightarrow> steps seg = []"
  by (induction seg) (auto simp: only_def)

lemma steps_getitem_log [simp]: "steps (getitem_log v k x) = []"
  by (cases v) (auto simp: getitem_log_def)

lemma loaded_configs_append [simp]:
  "loaded_configs (a @ b) = loaded_configs a @ loaded_configs b"
  by (induction a rule: loaded_configs.induct) auto

lemma loaded_configs_only:
  assumes "only Q seg" and "\<And>ev. Q ev \<Longrightarrow> \<not> named [''yaml.safe_load''] ev"
  shows "loaded_configs seg = []"
  using assms(1)
proof (induction seg)
  case Nil
  show ?case by simp
next
  case (Cons e seg)
  obtain ev r where e: "e = (ev, r)" by (cases e)
  with Cons have q: "Q ev" and rest: "loaded_configs seg = []" by auto
  from assms(2)[OF q] show ?case
    using rest e by (cases ev; cases r) auto
qed

lemma loaded_configs_getitem_log [simp]: "loaded_configs (getitem_log v k x) = []"
  by (cases v) (auto simp: getitem_log_def)

lemma ctor_kwargs_append [simp]: "ctor_kwargs (a @ b) = ctor_kwargs a @ ctor_kwargs b"
  by (induction a rule: ctor_kwargs.induct) auto

lemma ctor_kwargs_only:
  assumes "only Q seg" and "\<And>ev. Q ev \<Longrightarrow> \<not> named algorithm_names ev"
  shows "ctor_kwargs seg = []"
  using assms(1)
proof (induction seg)
  case Nil
  show ?case by simp
next
  case (Cons e seg)
  obtain ev r where e: "e = (ev, r)" by (cases e)
  with Cons have q: "Q ev" and rest: "ctor_kwargs seg = []" by auto
  from assms(2)[OF q] show ?case
    using rest e by (cases ev) auto
qed

lemma ctor_kwargs_getitem_log [simp]: "ctor_kwargs (getitem_log v k x) = []"
  by (cases v) (auto simp: getitem_log_def)

section \<open>Every run, also one that stops at an exception\<close>

lemma emits_ret: "emits P (ret x)"
  by (simp add: emits_def ret_def)

lemma emits_raise: "P PyRaise \<Longrightarrow> emits P (raise e)"
  by (simp add: emits_def raise_def)

lemma emits_lift: "P PyRaise \<Longrightarrow> emits P (lift r)"
  by (cases r) (simp_all add: lift_def emits_ret emits_raise)

lemma emits_call: "P ev \<Longrightarrow> emits P (call ev)"
  by (simp add: emits_def call_def)

lemma emits_shell: "P (Shell cmd) \<Longrightarrow> emits P (shell cmd)"
  by (simp add: emits_def shell_def)

lemma emits_bnd:
  assumes m: "emits P m" and f: "\<And>x. emits P (f x)"
  shows "emits P (bnd m f)"
  unfolding emits_def
proof (intro allI)
  fix w tr
  obtain r1 t1 where mw: "m w tr = (r1, t1)" by (cases "m w tr")
  from m obtain s1 where s1: "snd (m w tr) = tr @ s1" "list_all (\<lambda>entry. P (fst entry)) s1"
    unfolding emits_def by blast
  show "\<exists>seg. snd (bnd m f w tr) = tr @ seg \<and> list_all (\<lambda>entry. P (fst entry)) seg"
  proof (cases r1)
    case (Inl e)
    then have "snd (bnd m f w tr) = snd (m w tr)"
      by (simp add: bnd_def mw)
    with s1 show ?thesis by auto
  next
    case (Inr x)
    then have eq: "bnd m f w tr = f x w (tr @ s1)"
      using s1(1) by (simp add: bnd_def mw)
    from f[of x] obtain s2 where
      s2: "snd (f x w (tr @ s1)) = (tr @ s1) @ s2" "list_all (\<lambda>entry. P (fst entry)) s2"
      unfolding emits_def by blast
    show ?thesis using eq s1 s2 by (intro exI[of _ "s1 @ s2"]) simp
  qed
qed

lemma emits_case_prod: "(\<And>a b. emits P (f a b)) \<Longrightarrow> emits P (case p of (a, b) \<Rightarrow> f a b)"
  by (cases p) simp

lemma emits_exec_Nil: "emits P (exec [])"
  by (simp add: emits_ret)

lemma emits_exec_Cons: "emits P m \<Longrightarrow> emits P (exec ms) \<Longrightarrow> emits P (exec (m # ms))"
  by (simp add: emits_bnd)

lemma emits_display: "P (Display v) \<Longrightarrow> emits P (display v)"
  by (simp add: display_def emits_ret emits_bnd emits_call)

lemma emits_ensuring:
  assumes m: "emits P m" and fin: "emits P fin"
  shows "emits P (ensuring m fin)"
  unfolding emits_def
proof (intro allI)
  fix w tr
  from m obtain s1 where s1: "snd (m w tr) = tr @ s1" "list_all (\<lambda>entry. P (fst entry)) s1"
    unfolding emits_def by blast
  from fin obtain s2 where
    s2: "snd (fin w (tr @ s1)) = (tr @ s1) @ s2" "list_all (\<lambda>entry. P (fst entry)) s2"
    unfolding emits_def by blast
  obtain r1 t1 where mw: "m w tr = (r1, t1)" by (cases "m w tr")
  obtain r2 t2 where fw: "fin w t1 = (r2, t2)" by (cases "fin w t1")
  from s1(1) mw have t1: "t1 = tr @ s1" by simp
  have "snd (ensuring m fin w tr) = t2"
    by (cases r2) (simp_all add: ensuring_def mw fw)
  with fw t1 have "snd (ensuring m fin w tr) = snd (fin w (tr @ s1))" by simp
  with s1 s2 show "\<exists>seg. snd (ensuring m fin w tr) = tr @ seg \<and> list_all (\<lambda>entry. P (fst entry)) seg"
    by (intro exI[of _ "s1 @ s2"]) simp
qed

lemma emits_with_ctx:
  "P (Method cm ''__enter__'' [] []) \<Longrightarrow> P (Method cm ''__exit__'' [] []) \<Longrightarrow>
   (\<And>v. emits P (body v)) \<Longrightarrow> emits P (with_ctx cm body)"
  by (simp add: with_ctx_def emits_bnd emits_call emits_ensuring)

lemma emits_getitem:
  "P PyRaise \<Longrightarrow> P (Method v ''__getitem__'' [k] []) \<Longrightarrow> emits P (getitem v k)"
  by (cases v) (simp_all add: getitem_def emits_lift emits_call)

lemma emits_iterate:
  "P PyRaise \<Longrightarrow> P (Method v ''__iter__'' [] []) \<Longrightarrow> emits P (iterate v)"
  by (cases v)
     (auto simp: iterate_def emits_ret emits_raise emits_call intro!: emits_bnd split: pyval.splits)

lemma emits_unpack2:
  "P PyRaise \<Longrightarrow> P (Method v ''__iter__'' [] []) \<Longrightarrow> emits P (unpack2 v)"
  by (auto simp: unpack2_def emits_ret emits_raise emits_iterate intro!: emits_bnd split: list.splits)

lemma emits_py_format:
  "P PyRaise \<Longrightarrow> P (Call ''format'' [v, PStr spec] []) \<Longrightarrow> emits P (py_format v spec)"
  by (cases v)
     (auto simp: py_format_def emits_ret emits_raise emits_call intro!: emits_bnd split: pyval.splits)

lemmas emits_rules =
  emits_ret emits_raise emits_lift emits_call emits_shell emits_bnd emits_case_prod
  emits_exec_Nil emits_exec_Cons emits_display emits_with_ctx emits_getitem emits_iterate
  emits_unpack2 emits_py_format


subsection \<open>Exceptions\<close>

lemma raised_Nil [simp]: "raised [] = []"
  by (simp add: raised_def map_filter_simps)

lemma raised_append [simp]: "raised (a @ b) = raised a @ raised b"
  by (simp add: raised_def map_filter_def)

lemma raised_single [simp]: "raised [entry] = (case raised_by entry of None \<Rightarrow> [] | Some e \<Rightarrow> [e])"
  by (simp add: raised_def map_filter_simps split: option.splits)

lemma not_Shell [simp]:
  "Import a b \<noteq> Shell c" "Call n x k \<noteq> Shell c" "Method v n x k \<noteq> Shell c"
  "Display v \<noteq> Shell c" "PyRaise \<noteq> Shell c"
  by simp_all

lemma raised_by_answer:
  assumes "\<And>c. ev \<noteq> Shell c"
  shows "raised_by (ev, r) = (case r of Inl e \<Rightarrow> Some e | Inr x \<Rightarrow> None)"
  using assms by (cases ev; cases r) simp_all

lemma first_raise_append:
  "first_raise (a @ b) =
     (case first_raise a of Some (e, rest) \<Rightarrow> Some (e, rest @ b) | None \<Rightarrow> first_raise b)"
  by (induction a) (auto split: option.splits)

lemma unhandled_Inr [simp]: "unhandled (Inr x, seg) = (first_raise seg = None)"
  by (auto simp: unhandled_def split: option.splits)

lemma unhandled_Inl [simp]:
  "unhandled (Inl e, seg) =
     (\<exists>e1 rest. first_raise seg = Some (e1, rest) \<and>
        list_all (\<lambda>entry. exit_event (fst entry)) rest \<and> e = last (e1 # raised rest))"
  by (auto simp: unhandled_def split: option.splits)

lemma no_handlerD:
  assumes "no_handler m"
  obtains seg where "snd (m w tr) = tr @ seg" and "unhandled (fst (m w tr), seg)"
  using assms unfolding no_handler_def by blast

lemma no_handler_ret: "no_handler (ret x)"
  by (simp add: no_handler_def ret_def)

lemma no_handler_raise: "no_handler (raise e)"
  by (simp add: no_handler_def raise_def)

lemma no_handler_lift: "no_handler (lift r)"
  by (cases r) (simp_all add: lift_def no_handler_ret no_handler_raise)

lemma no_handler_call:
  assumes "\<And>c. ev \<noteq> Shell c"
  shows "no_handler (call ev)"
  unfolding no_handler_def
proof (intro allI)
  fix w :: world and tr :: log
  have "unhandled (w (length tr) ev, [(ev, w (length tr) ev)])"
    by (cases "w (length tr) ev") (simp_all add: raised_by_answer[OF assms])
  then show "\<exists>seg. snd (call ev w tr) = tr @ seg \<and> unhandled (fst (call ev w tr), seg)"
    by (simp add: call_def)
qed

lemma no_handler_shell: "no_handler (shell cmd)"
  by (simp add: no_handler_def shell_def)

lemma no_handler_bnd:
  assumes m: "no_handler m" and f: "\<And>x. no_handler (f x)"
  shows "no_handler (bnd m f)"
  unfolding no_handler_def
proof (intro allI)
  fix w tr
  obtain r1 t1 where mw: "m w tr = (r1, t1)" by (cases "m w tr")
  from m obtain s1 where s1: "snd (m w tr) = tr @ s1" "unhandled (fst (m w tr), s1)"
    by (rule no_handlerD)
  show "\<exists>seg. snd (bnd m f w tr) = tr @ seg \<and> unhandled (fst (bnd m f w tr), seg)"
  proof (cases r1)
    case (Inl e)
    then have "bnd m f w tr = (Inl e, snd (m w tr))"
      by (simp add: bnd_def mw)
    with s1 Inl mw show ?thesis by auto
  next
    case (Inr x)
    then have eq: "bnd m f w tr = f x w (tr @ s1)"
      using s1(1) by (simp add: bnd_def mw)
    from f[of x] obtain s2 where
      s2: "snd (f x w (tr @ s1)) = (tr @ s1) @ s2" "unhandled (fst (f x w (tr @ s1)), s2)"
      by (rule no_handlerD)
    from s1(2) Inr mw have "first_raise s1 = None" by simp
    with eq s2 show ?thesis
      by (intro exI[of _ "s1 @ s2"])
         (auto simp: unhandled_def first_raise_append split: option.splits)
  qed
qed

lemma no_handler_case_prod:
  "(\<And>a b. no_handler (f a b)) \<Longrightarrow> no_handler (case p of (a, b) \<Rightarrow> f a b)"
  by (cases p) simp

lemma no_handler_exec_Nil: "no_handler (exec [])"
  by (simp add: no_handler_ret)

lemma no_handler_exec_Cons:
  "no_handler m \<Longrightarrow> no_handler (exec ms) \<Longrightarrow> no_handler (exec (m # ms))"
  by (simp add: no_handler_bnd)

lemma no_handler_display: "no_handler (display v)"
  by (simp add: display_def no_handler_ret no_handler_bnd no_handler_call)

lemma no_handler_exit:
  assumes m: "no_handler m"
  shows "no_handler (ensuring m (call (Method cm ''__exit__'' [] [])))"
  unfolding no_handler_def
proof (intro allI)
  fix w :: world and tr :: log
  from m obtain s1 where s1: "snd (m w tr) = tr @ s1" "unhandled (fst (m w tr), s1)"
    by (rule no_handlerD)
  obtain r1 t1 where mw: "m w tr = (r1, t1)" by (cases "m w tr")
  from s1(1) mw have t1: "t1 = tr @ s1" by simp
  define ex where "ex = Method cm ''__exit__'' [] []"
  define r2 where "r2 = w (length (tr @ s1)) ex"
  have ex: "exit_event ex" "raised_by (ex, r2) = (case r2 of Inl e \<Rightarrow> Some e | Inr x \<Rightarrow> None)"
    by (simp_all add: ex_def exit_event_def raised_by_answer)
  have res: "ensuring m (call ex) w tr =
      ((case r2 of Inl e \<Rightarrow> Inl e | Inr x \<Rightarrow> r1), tr @ s1 @ [(ex, r2)])"
    by (cases r2) (simp_all add: ensuring_def call_def mw t1 r2_def)
  have "unhandled ((case r2 of Inl e \<Rightarrow> Inl e | Inr x \<Rightarrow> r1), s1 @ [(ex, r2)])"
  proof (cases "first_raise s1")
    case None
    with s1(2) mw obtain x where "r1 = Inr x"
      by (cases r1) simp_all
    with None ex show ?thesis
      by (cases r2) (simp_all add: first_raise_append)
  next
    case (Some p)
    obtain e1 rest where p: "p = (e1, rest)" by (cases p)
    from Some p s1(2) mw have r1: "r1 = Inl (last (e1 # raised rest))"
      and rest: "list_all (\<lambda>entry. exit_event (fst entry)) rest"
      by (cases r1; simp)+
    from Some p r1 rest ex show ?thesis
      by (cases r2) (simp_all add: first_raise_append)
  qed
  with res show "\<exists>seg. snd (ensuring m (call (Method cm ''__exit__'' [] [])) w tr) = tr @ seg \<and>
      unhandled (fst (ensuring m (call (Method cm ''__exit__'' [] [])) w tr), seg)"
    unfolding ex_def by (intro exI[of _ "s1 @ [(Method cm ''__exit__'' [] [], r2)]"]) simp
qed

lemma no_handler_with_ctx: "(\<And>v. no_handler (body v)) \<Longrightarrow> no_handler (with_ctx cm body)"
  by (simp add: with_ctx_def no_handler_bnd no_handler_call no_handler_exit)

lemma no_handler_getitem: "no_handler (getitem v k)"
  by (cases v) (simp_all add: getitem_def no_handler_lift no_handler_call)

lemma no_handler_iterate: "no_handler (iterate v)"
  by (cases v)
     (auto simp: iterate_def no_handler_ret no_handler_raise no_handler_call
           intro!: no_handler_bnd split: pyval.splits)

lemma no_handler_unpack2: "no_handler (unpack2 v)"
  by (auto simp: unpack2_def no_handler_ret no_handler_raise no_handler_iterate
           intro!: no_handler_bnd split: list.splits)

lemma no_handler_py_format: "no_handler (py_format v spec)"
  by (cases v)
     (auto simp: py_format_def no_handler_ret no_handler_raise no_handler_call
           intro!: no_handler_bnd split: pyval.splits)

lemmas no_handler_rules =
  no_handler_ret no_handler_raise no_handler_lift no_handler_call no_handler_shell
  no_handler_bnd no_handler_case_prod no_handler_exec_Nil no_handler_exec_Cons
  no_handler_display no_handler_with_ctx no_handler_getitem no_handler_iterate
  no_handler_unpack2 no_handler_py_format

lemma no_handler_run:
  assumes "no_handler m"
  shows "unhandled (m w [])"
proof -
  from assms obtain seg where "snd (m w []) = [] @ seg" "unhandled (fst (m w []), seg)"
    by (rule no_handlerD)
  then show ?thesis by (cases "m w []") (simp add: unhandled_def)
qed

section \<open>What the classes of events leave out\<close>

lemma getitem_log_data [simp]:
  "getitem_log (PDict kvs) k x = []"
  "getitem_log (str_dict skvs) k x = []"
  by (simp_all add: getitem_log_def str_dict_def)

lemma hashable_simps [simp]:
  "hashable (PStr s)" "hashable (PInt i)" "hashable (PFloat r)" "hashable (PBool b)" "hashable PNone"
  by (simp_all add: hashable_def)

lemma aux_not_data: "aux_event ev \<Longrightarrow> \<not> data_event ev"
  by (cases ev) (auto simp: aux_event_def data_event_def algorithm_names_def)

lemma aux_not_model: "aux_event ev \<Longrightarrow> \<not> model_event ev"
  by (cases ev) (auto simp: aux_event_def model_event_def)

lemma aux_no_step: "aux_event ev \<Longrightarrow> step_of ev = None"
  by (cases ev) (auto simp: aux_event_def algorithm_names_def)

lemma aux_not_load: "aux_event ev \<Longrightarrow> \<not> named [''yaml.safe_load''] ev"
  by (cases ev) (auto simp: aux_event_def)

lemma aux_not_ctor: "aux_event ev \<Longrightarrow> \<not> named algorithm_names ev"
  by (cases ev) (auto simp: aux_event_def algorithm_names_def)

lemma aux_not_object: "aux_event ev \<Longrightarrow> \<not> object_event ev"
  by (cases ev)
     (auto simp: aux_event_def object_event_def glue_event_def glue_calls_def glue_methods_def)

lemma aux_not_outside: "aux_event ev \<Longrightarrow> \<not> outside_event ev"
  by (cases ev) (auto simp: aux_event_def outside_event_def outward_event_def)

lemmas aux_silent =
  select_only[OF _ aux_not_object] select_only[OF _ aux_not_outside]
  select_only[OF _ aux_not_data] select_only[OF _ aux_not_model] steps_only[OF _ aux_no_step]
  loaded_configs_only[OF _ aux_not_load] ctor_kwargs_only[OF _ aux_not_ctor]

lemma batch_not_object: "ft_batch_event ev \<Longrightarrow> \<not> object_event ev"
  by (cases ev)
     (auto simp: ft_batch_event_def object_event_def glue_event_def glue_calls_def glue_methods_def)

lemma batch_not_outside: "ft_batch_event ev \<Longrightarrow> \<not> outside_event ev"
  by (cases ev) (auto simp: ft_batch_event_def outside_event_def outward_event_def)

lemma batch_not_data: "ft_batch_event ev \<Longrightarrow> \<not> data_event ev"
  by (cases ev) (auto simp: ft_batch_event_def data_event_def algorithm_names_def)

lemma batch_no_step: "ft_batch_event ev \<Longrightarrow> step_of ev = None"
  by (cases ev) (auto simp: ft_batch_event_def algorithm_names_def)

lemma batch_not_load: "ft_batch_event ev \<Longrightarrow> \<not> named [''yaml.safe_load''] ev"
  by (cases ev) (auto simp: ft_batch_event_def)

lemma batch_not_ctor: "ft_batch_event ev \<Longrightarrow> \<not> named algorithm_names ev"
  by (cases ev) (auto simp: ft_batch_event_def algorithm_names_def)

lemmas batch_silent =
  select_only[OF _ batch_not_object] select_only[OF _ batch_not_outside]
  select_only[OF _ batch_not_data] steps_only[OF _ batch_no_step]
  loaded_configs_only[OF _ batch_not_load] ctor_kwargs_only[OF _ batch_not_ctor]

lemma entry_of_loaders [simp]:
  "entry_of (str_dict [(''train'', a), (''val'', b), (''test'', c)]) (PStr ''train'') x = (x = a)"
  "entry_of (str_dict [(''train'', a), (''val'', b), (''test'', c)]) (PStr ''val'') x = (x = b)"
  "entry_of (str_dict [(''train'', a), (''val'', b), (''test'', c)]) (PStr ''test'') x = (x = c)"
  by (auto simp: entry_of_def str_dict_def hashable_def)

section \<open>The Factor Transfer notebook: its runs\<close>

lemmas ft_cells =
  ft_cell3_def ft_cell4_def ft_cell5_def ft_cell6_def ft_cell7_def ft_loader_def ft_cell8_def
  ft_cell9_def ft_cell10_def ft_cell11_def ft_cell12_def ft_cell13_def

lemma unpack2_iter_okD:
  "unpack2 v w tr = (Inr p, tr') \<Longrightarrow> \<exists>seg. tr' = tr @ seg \<and> only ft_batch_event seg"
  unfolding unpack2_def
  by (cases v)
     (auto simp: iterate_def ft_batch_event_def dest!: call_okD ret_okD raise_okD elim!: bnd_okE
           split: list.splits pyval.splits)

lemma ft_batch_ok:
  "ft_batch device sm item w tr = (Inr p, tr') \<Longrightarrow> \<exists>seg. tr' = tr @ seg \<and> only ft_batch_event seg"
  unfolding ft_batch_def
  by (auto elim!: bnd_okE with_ctx_okE dest!: call_okD ret_okD unpack2_iter_okD
           simp: ft_batch_event_def)

lemma ft_test_loop_ok:
  "ft_test_loop device sm items ps ls w tr = (Inr p, tr') \<Longrightarrow>
   \<exists>seg. tr' = tr @ seg \<and> only ft_batch_event seg"
proof (induction items arbitrary: ps ls tr)
  case Nil
  then show ?case by (auto dest!: ret_okD)
next
  case (Cons item items)
  from Cons.prems obtain q tr1 where a: "ft_batch device sm item w tr = (Inr q, tr1)"
    and b: "(case q of (p, l) \<Rightarrow> ft_test_loop device sm items (ps @ [p]) (ls @ [l])) w tr1 = (Inr p, tr')"
    by (auto elim!: bnd_okE)
  obtain p1 l1 where q: "q = (p1, l1)" by (cases q)
  from ft_batch_ok[OF a] obtain s1 where s1: "tr1 = tr @ s1" "only ft_batch_event s1" by blast
  from b q have "ft_test_loop device sm items (ps @ [p1]) (ls @ [l1]) w tr1 = (Inr p, tr')" by simp
  from Cons.IH[OF this] obtain s2 where s2: "tr' = tr1 @ s2" "only ft_batch_event s2" by blast
  show ?case using s1 s2 by auto
qed





lemma ft_run_data:
  assumes "run_factor_transfer w [] = (Inr y, tr)"
  shows "\<exists>t tt ds d1 s1 l1 d2 s2 l2 d3 s3 l3 teacher student kw box.
     select data_event tr =
       [(dataset_call ''CIFAR10'' ''./data'' 0.1 t tt [(''random_seed'', PInt 42)], Inr ds)] @
       loader_log ''torch.utils.data.DataLoader'' ds ''train_dataset'' ''train_sampler'' 128 2 d1 s1 l1 @
       loader_log ''torch.utils.data.DataLoader'' ds ''val_dataset'' ''val_sampler'' 128 2 d2 s2 l2 @
       loader_log ''torch.utils.data.DataLoader'' ds ''test_dataset'' ''test_sampler'' 128 2 d3 s3 l3 @
       [(Call ''FactorTransfer''
           [teacher, student, str_dict [(''train'', l1), (''val'', l2), (''test'', l3)]] kw,
         Inr box)]"
  using assms unfolding run_factor_transfer_def ft_cells
    apply (clarsimp elim!: bnd_okE exec_Cons_okE with_ctx_okE
        dest!: call_okD ret_okD lift_okD exec_Nil_okD shell_okD getitem_okD display_okD
               iterate_okD unpack2_okD py_format_okD ft_test_loop_ok
        simp del: exec.simps py_kwargs.simps py_getitem.simps py_setitem.simps
        simp: aux_silent batch_silent data_event_def split_keys_def algorithm_names_def dataset_call_def loader_log_def)
    apply ((intro exI conjI, (rule refl | assumption)+)?)
    done

section \<open>The ChipNet notebook: its runs\<close>

lemmas cn_cells =
  cn_cell1_def cn_cell3_def cn_cell4_def cn_cell5_def cn_cell7_def cn_cell8_def cn_cell9_def
  cn_cell10_def cn_cell12_def cn_cell13_def cn_cell14_def cn_cell15_def cn_loader_def
  cn_cell16_def cn_cell17_def cn_cell18_def cn_cell19_def cn_cell20_def





lemma cn_run_data:
  assumes "run_chipnet w [] = (Inr y, tr)"
  shows "\<exists>t tt ds d1 s1 l1 d2 s2 l2 d3 s3 l3 model kw a.
     select data_event tr =
       [(dataset_call ''CIFAR10'' ''/content/data_dir'' 0.2 t tt [], Inr ds)] @
       loader_log ''torch.utils.data.DataLoader'' ds ''train_dataset'' ''train_sampler'' 64 0 d1 s1 l1 @
       loader_log ''torch.utils.data.DataLoader'' ds ''val_dataset'' ''val_sampler'' 64 0 d2 s2 l2 @
       loader_log ''torch.utils.data.DataLoader'' ds ''test_dataset'' ''test_sampler'' 64 0 d3 s3 l3 @
       [(Call ''ChipNet''
           [model, str_dict [(''train'', l1), (''val'', l2), (''test'', l3)]] kw,
         Inr a)]"
  using assms unfolding run_chipnet_def cn_cells
    apply (clarsimp elim!: bnd_okE exec_Cons_okE with_ctx_okE
        dest!: call_okD ret_okD lift_okD exec_Nil_okD shell_okD getitem_okD display_okD
               iterate_okD unpack2_okD py_format_okD ft_test_loop_ok
        simp del: exec.simps py_kwargs.simps py_getitem.simps py_setitem.simps
        simp: aux_silent batch_silent data_event_def split_keys_def algorithm_names_def dataset_call_def loader_log_def)
    apply ((intro exI conjI, (rule refl | assumption)+)?)
    done

lemma cn_run_model:
  assumes "run_chipnet w [] = (Inr y, tr)"
  shows "\<exists>model weights loaders kw a r.
     select model_event tr =
       [(Call ''ModelsFactory.create_model'' [PStr ''resnet18'', PInt 10, PBool False]
           [(''insize'', PInt 32)], Inr model),
        (Call ''load_state_dict_from_url'' [PStr cn_pretrained_weights] [], Inr weights),
        (Call ''ChipNet'' [model, loaders] kw, Inr a),
        (Method a ''compress_model'' [] [], Inr r)]"
  using assms unfolding run_chipnet_def cn_cells
    apply (clarsimp elim!: bnd_okE exec_Cons_okE with_ctx_okE
        dest!: call_okD ret_okD lift_okD exec_Nil_okD shell_okD getitem_okD display_okD
               iterate_okD unpack2_okD py_format_okD ft_test_loop_ok
        simp del: exec.simps py_kwargs.simps py_getitem.simps py_setitem.simps
        simp: aux_silent batch_silent model_event_def)
    apply ((intro exI conjI, (rule refl | assumption)+)?)
    done

section \<open>The BitSplit notebook: its runs\<close>

lemmas bs_cells =
  bs_cell1_def bs_cell3_def bs_cell4_def bs_print_size_def bs_cell5_def bs_loader_def
  bs_print_len_def bs_cell6_def bs_cell7_def bs_cell8_def bs_test_def bs_cell9_def bs_cell10_def





lemma bs_run_data:
  assumes "run_bitsplit w [] = (Inr y, tr)"
  shows "\<exists>t tt ds d1 s1 l1 d2 s2 l2 d3 s3 l3 model kw q.
     select data_event tr =
       [(dataset_call ''CIFAR100'' ''./data'' 0.2 t tt [], Inr ds)] @
       loader_log ''DataLoader'' ds ''train'' ''train_sampler'' 128 0 d1 s1 l1 @
       loader_log ''DataLoader'' ds ''val'' ''val_sampler'' 128 0 d2 s2 l2 @
       loader_log ''DataLoader'' ds ''test'' ''test_sampler'' 128 0 d3 s3 l3 @
       [(Call ''quantize.bitsplit.BitSplit''
           [model, str_dict [(''train'', l1), (''val'', l2), (''test'', l3)]] kw,
         Inr q)]"
  using assms unfolding run_bitsplit_def bs_cells
    apply (clarsimp elim!: bnd_okE exec_Cons_okE with_ctx_okE
        dest!: call_okD ret_okD lift_okD exec_Nil_okD shell_okD getitem_okD display_okD
               iterate_okD unpack2_okD py_format_okD ft_test_loop_ok
        simp del: exec.simps py_kwargs.simps py_getitem.simps py_setitem.simps
        simp: aux_silent batch_silent data_event_def split_keys_def algorithm_names_def dataset_call_def loader_log_def)
    apply ((intro exI conjI, (rule refl | assumption)+)?)
    done

section \<open>The notebooks: every run\<close>









lemma cn_never_loads: "emits (\<lambda>ev. \<not> named [''load_state_dict''] ev) run_chipnet"
  unfolding run_chipnet_def cn_cells
  by (intro emits_rules) simp_all




lemma no_handler_ft_batch: "no_handler (ft_batch device sm item)"
  unfolding ft_batch_def
  by (intro no_handler_rules) simp_all

lemma no_handler_ft_test_loop: "no_handler (ft_test_loop device sm items ps ls)"
proof (induction items arbitrary: ps ls)
  case Nil
  show ?case by (simp add: no_handler_ret)
next
  case (Cons item items)
  show ?case
    by (simp, intro no_handler_bnd no_handler_case_prod no_handler_ft_batch Cons.IH)
qed

lemma ft_runs_unhandled: "no_handler run_factor_transfer"
  unfolding run_factor_transfer_def ft_cells
  by (intro no_handler_rules no_handler_ft_test_loop) simp_all

lemma cn_runs_unhandled: "no_handler run_chipnet"
  unfolding run_chipnet_def cn_cells
  by (intro no_handler_rules) simp_all

lemma bs_runs_unhandled: "no_handler run_bitsplit"
  unfolding run_bitsplit_def bs_cells
  by (intro no_handler_rules) simp_all

section \<open>Dicts\<close>








section \<open>The example environments\<close>

lemmas run_simps =
  bnd_def call_def ret_def lift_def raise_def shell_def display_def getitem_def with_ctx_def
  ensuring_def iterate_def unpack2_def py_format_def ebind_def str_dict_def hashable_def
  seq_index_def demo_world_def

lemma ft_demo_completes: "completes run_factor_transfer (demo_world ft_config PNone)"
  unfolding completes_def run_factor_transfer_def ft_cells
  by (simp add: run_simps ft_batch_def ft_config_def)

lemma cn_demo_completes: "completes run_chipnet (demo_world cn_config PNone)"
  unfolding completes_def run_chipnet_def cn_cells
  by (simp add: run_simps cn_config_def)

lemma bs_demo_completes: "completes run_bitsplit (demo_world bs_config (PObj 2000))"
  unfolding completes_def run_bitsplit_def bs_cells
  by (simp add: run_simps bs_config_def bs_general_def bs_select_def)



lemma bs_unsupported_fails:
  "fst (run_bitsplit (demo_world bs_config_unsupported (PObj 2000)) []) =
     Inl (AssertionError ''given weight budget not supported'')"
  unfolding run_bitsplit_def bs_cells
  by (simp add: run_simps bs_config_unsupported_def bs_general_def bs_select_def)


lemma ft_missing_file_fails:
  "fst (run_factor_transfer missing_file_world []) = Inl (Raised ''FileNotFoundError'')"
  unfolding run_factor_transfer_def ft_cells
  by (simp add: run_simps ft_batch_def ft_config_def missing_file_world_def)

lemma bs_unsupported_failures:
  "failures (snd (run_bitsplit (demo_world bs_config_unsupported (PObj 2000)) [])) =
     [(PyRaise, Inl (AssertionError ''given weight budget not supported''))]"
  unfolding run_bitsplit_def bs_cells
  by (simp add: run_simps bs_config_unsupported_def bs_general_def bs_select_def failures_def)







section \<open>Runs without an event of a kind\<close>


section \<open>The configuration of BitSplit: every run\<close>

















section \<open>The claims\<close>









text \<open>
  Claim C4. No notebook handles errors: for every failure, a missing file, a shape
  mismatch, or an assertion on an unsupported configuration value (a \<^verbatim>\<open>W_BUDGET\<close> that
  \<^verbatim>\<open>W_ARGS\<close> does not list), the exception propagates uncaught as a generic runtime
  error from the external library or the I/O layer.

  The exception of the claim's own example does not come from a library or from I/O. With
  a budget that \<^verbatim>\<open>W_ARGS\<close> does not list, every call into a library returns; the one
  event that raises is the \<^verbatim>\<open>assert\<close> statement of cell 8 of the BitSplit notebook,
  and the run ends with its \<^verbatim>\<open>AssertionError\<close>, whose message the notebook wrote.
\<close>

theorem assertion_origin_counterexample:
  "fst (run_bitsplit (demo_world bs_config_unsupported (PObj 2000)) []) =
     Inl (AssertionError ''given weight budget not supported'') \<and>
   failures (snd (run_bitsplit (demo_world bs_config_unsupported (PObj 2000)) [])) =
     [(PyRaise, Inl (AssertionError ''given weight budget not supported''))]"
  using bs_unsupported_fails bs_unsupported_failures by (intro conjI)

text \<open>
  Claim C4, amended. No notebook handles an exception, whether a call into a library or
  into I/O raised it (a missing file, a shape mismatch) or a statement of the notebook
  itself (the assertion on \<^verbatim>\<open>W_BUDGET\<close>, a subscript, a \<^verbatim>\<open>**\<close>). In every run of
  every notebook, whatever the environment answers: a run that reaches the last cell
  raised nothing; after the first exception of a run nothing happens but the exits of the
  \<^verbatim>\<open>with\<close> blocks it leaves, and the run ends with that exception, or with the one
  such an exit raised last. (The failure of a shell command is printed, it is no
  exception.)
\<close>

theorem exceptions_propagate:
  "unhandled (run_factor_transfer w []) \<and> unhandled (run_chipnet w []) \<and>
   unhandled (run_bitsplit w [])"
  by (intro conjI no_handler_run ft_runs_unhandled cn_runs_unhandled bs_runs_unhandled)

theorem exceptions_propagate_witness:
  "fst (run_bitsplit (demo_world bs_config_unsupported (PObj 2000)) []) =
     Inl (AssertionError ''given weight budget not supported'') \<and>
   (\<exists>e1 rest.
      first_raise (snd (run_bitsplit (demo_world bs_config_unsupported (PObj 2000)) [])) =
        Some (e1, rest) \<and>
      list_all (\<lambda>entry. exit_event (fst entry)) rest \<and>
      AssertionError ''given weight budget not supported'' = last (e1 # raised rest)) \<and>
   fst (run_factor_transfer missing_file_world []) = Inl (Raised ''FileNotFoundError'') \<and>
   (\<exists>e1 rest.
      first_raise (snd (run_factor_transfer missing_file_world [])) = Some (e1, rest) \<and>
      list_all (\<lambda>entry. exit_event (fst entry)) rest \<and>
      Raised ''FileNotFoundError'' = last (e1 # raised rest)) \<and>
   first_raise (snd (run_chipnet (demo_world cn_config PNone) [])) = None"
proof -
  note bs = exceptions_propagate[of "demo_world bs_config_unsupported (PObj 2000)",
      THEN conjunct2, THEN conjunct2]
  note ft = exceptions_propagate[of missing_file_world, THEN conjunct1]
  note cn = exceptions_propagate[of "demo_world cn_config PNone", THEN conjunct2, THEN conjunct1]
  obtain y where "run_chipnet (demo_world cn_config PNone) [] =
      (Inr y, log_of run_chipnet (demo_world cn_config PNone))"
    using cn_demo_completes by (rule completesE)
  with cn have 3: "first_raise (snd (run_chipnet (demo_world cn_config PNone) [])) = None"
    by simp
  obtain t1 where 1: "run_bitsplit (demo_world bs_config_unsupported (PObj 2000)) [] =
      (Inl (AssertionError ''given weight budget not supported''), t1)"
    using bs_unsupported_fails
    by (cases "run_bitsplit (demo_world bs_config_unsupported (PObj 2000)) []") simp
  obtain t2 where 2: "run_factor_transfer missing_file_world [] =
      (Inl (Raised ''FileNotFoundError''), t2)"
    using ft_missing_file_fails
    by (cases "run_factor_transfer missing_file_world []") simp
  from bs ft 3 show ?thesis
    unfolding 1 2 by simp
qed




text \<open>
  Claim C7. Each notebook calls \<^verbatim>\<open>DatasetFactory.create_dataset\<close> with the split types
  \<^verbatim>\<open>['train', 'val', 'test']\<close> and a validation fraction strictly between 0 and 1,
  builds one \<^verbatim>\<open>DataLoader\<close> per split, all three with the same batch size, and hands
  the loaders to the compression object in a mapping with the keys \<^verbatim>\<open>'train'\<close>,
  \<^verbatim>\<open>'val'\<close> and \<^verbatim>\<open>'test'\<close>.

  In every run that reaches the last cell, the dataset, the loaders and the constructor
  are these events, in this order: one \<^verbatim>\<open>create_dataset\<close> with the three split types
  and the fraction 0.1 (Factor Transfer) or 0.2 (ChipNet, BitSplit); for the train, the
  validation and the test split a loader of the split and its sampler, taken out of what
  \<^verbatim>\<open>create_dataset\<close> returned, with the batch size 128, 64 and 128 respectively; and
  the constructor, whose loaders argument is the mapping of \<^verbatim>\<open>'train'\<close>,
  \<^verbatim>\<open>'val'\<close> and \<^verbatim>\<open>'test'\<close> to these three loaders.
\<close>

theorem splits_and_loaders:
  "(completes run_factor_transfer w \<longrightarrow>
      (\<exists>t tt ds d1 s1 l1 d2 s2 l2 d3 s3 l3 teacher student kw box.
         select data_event (log_of run_factor_transfer w) =
           [(dataset_call ''CIFAR10'' ''./data'' 0.1 t tt [(''random_seed'', PInt 42)], Inr ds)] @
           loader_log ''torch.utils.data.DataLoader'' ds ''train_dataset'' ''train_sampler'' 128 2 d1 s1 l1 @
           loader_log ''torch.utils.data.DataLoader'' ds ''val_dataset'' ''val_sampler'' 128 2 d2 s2 l2 @
           loader_log ''torch.utils.data.DataLoader'' ds ''test_dataset'' ''test_sampler'' 128 2 d3 s3 l3 @
           [(Call ''FactorTransfer''
               [teacher, student, str_dict [(''train'', l1), (''val'', l2), (''test'', l3)]] kw,
             Inr box)])) \<and>
   (completes run_chipnet w \<longrightarrow>
      (\<exists>t tt ds d1 s1 l1 d2 s2 l2 d3 s3 l3 model kw a.
         select data_event (log_of run_chipnet w) =
           [(dataset_call ''CIFAR10'' ''/content/data_dir'' 0.2 t tt [], Inr ds)] @
           loader_log ''torch.utils.data.DataLoader'' ds ''train_dataset'' ''train_sampler'' 64 0 d1 s1 l1 @
           loader_log ''torch.utils.data.DataLoader'' ds ''val_dataset'' ''val_sampler'' 64 0 d2 s2 l2 @
           loader_log ''torch.utils.data.DataLoader'' ds ''test_dataset'' ''test_sampler'' 64 0 d3 s3 l3 @
           [(Call ''ChipNet''
               [model, str_dict [(''train'', l1), (''val'', l2), (''test'', l3)]] kw,
             Inr a)])) \<and>
   (completes run_bitsplit w \<longrightarrow>
      (\<exists>t tt ds d1 s1 l1 d2 s2 l2 d3 s3 l3 model kw q.
         select data_event (log_of run_bitsplit w) =
           [(dataset_call ''CIFAR100'' ''./data'' 0.2 t tt [], Inr ds)] @
           loader_log ''DataLoader'' ds ''train'' ''train_sampler'' 128 0 d1 s1 l1 @
           loader_log ''DataLoader'' ds ''val'' ''val_sampler'' 128 0 d2 s2 l2 @
           loader_log ''DataLoader'' ds ''test'' ''test_sampler'' 128 0 d3 s3 l3 @
           [(Call ''quantize.bitsplit.BitSplit''
               [model, str_dict [(''train'', l1), (''val'', l2), (''test'', l3)]] kw,
             Inr q)]))"
proof (intro conjI impI)
  assume "completes run_factor_transfer w"
  then obtain y where "run_factor_transfer w [] = (Inr y, log_of run_factor_transfer w)"
    by (rule completesE)
  then show "\<exists>t tt ds d1 s1 l1 d2 s2 l2 d3 s3 l3 teacher student kw box.
         select data_event (log_of run_factor_transfer w) =
           [(dataset_call ''CIFAR10'' ''./data'' 0.1 t tt [(''random_seed'', PInt 42)], Inr ds)] @
           loader_log ''torch.utils.data.DataLoader'' ds ''train_dataset'' ''train_sampler'' 128 2 d1 s1 l1 @
           loader_log ''torch.utils.data.DataLoader'' ds ''val_dataset'' ''val_sampler'' 128 2 d2 s2 l2 @
           loader_log ''torch.utils.data.DataLoader'' ds ''test_dataset'' ''test_sampler'' 128 2 d3 s3 l3 @
           [(Call ''FactorTransfer''
               [teacher, student, str_dict [(''train'', l1), (''val'', l2), (''test'', l3)]] kw,
             Inr box)]"
    by (rule ft_run_data)
next
  assume "completes run_chipnet w"
  then obtain y where "run_chipnet w [] = (Inr y, log_of run_chipnet w)"
    by (rule completesE)
  then show "\<exists>t tt ds d1 s1 l1 d2 s2 l2 d3 s3 l3 model kw a.
         select data_event (log_of run_chipnet w) =
           [(dataset_call ''CIFAR10'' ''/content/data_dir'' 0.2 t tt [], Inr ds)] @
           loader_log ''torch.utils.data.DataLoader'' ds ''train_dataset'' ''train_sampler'' 64 0 d1 s1 l1 @
           loader_log ''torch.utils.data.DataLoader'' ds ''val_dataset'' ''val_sampler'' 64 0 d2 s2 l2 @
           loader_log ''torch.utils.data.DataLoader'' ds ''test_dataset'' ''test_sampler'' 64 0 d3 s3 l3 @
           [(Call ''ChipNet''
               [model, str_dict [(''train'', l1), (''val'', l2), (''test'', l3)]] kw,
             Inr a)]"
    by (rule cn_run_data)
next
  assume "completes run_bitsplit w"
  then obtain y where "run_bitsplit w [] = (Inr y, log_of run_bitsplit w)"
    by (rule completesE)
  then show "\<exists>t tt ds d1 s1 l1 d2 s2 l2 d3 s3 l3 model kw q.
         select data_event (log_of run_bitsplit w) =
           [(dataset_call ''CIFAR100'' ''./data'' 0.2 t tt [], Inr ds)] @
           loader_log ''DataLoader'' ds ''train'' ''train_sampler'' 128 0 d1 s1 l1 @
           loader_log ''DataLoader'' ds ''val'' ''val_sampler'' 128 0 d2 s2 l2 @
           loader_log ''DataLoader'' ds ''test'' ''test_sampler'' 128 0 d3 s3 l3 @
           [(Call ''quantize.bitsplit.BitSplit''
               [model, str_dict [(''train'', l1), (''val'', l2), (''test'', l3)]] kw,
             Inr q)]"
    by (rule bs_run_data)
qed

theorem splits_and_loaders_witness:
  "completes run_factor_transfer (demo_world ft_config PNone) \<and>
   (\<exists>t tt. fst (hd (select data_event (log_of run_factor_transfer (demo_world ft_config PNone)))) =
      dataset_call ''CIFAR10'' ''./data'' 0.1 t tt [(''random_seed'', PInt 42)]) \<and>
   completes run_chipnet (demo_world cn_config PNone) \<and>
   (\<exists>t tt. fst (hd (select data_event (log_of run_chipnet (demo_world cn_config PNone)))) =
      dataset_call ''CIFAR10'' ''/content/data_dir'' 0.2 t tt []) \<and>
   completes run_bitsplit (demo_world bs_config (PObj 2000)) \<and>
   (\<exists>t tt. fst (hd (select data_event (log_of run_bitsplit (demo_world bs_config (PObj 2000))))) =
      dataset_call ''CIFAR100'' ''./data'' 0.2 t tt [])"
proof -
  note ft = splits_and_loaders[of "demo_world ft_config PNone", THEN conjunct1]
  note cn = splits_and_loaders[of "demo_world cn_config PNone", THEN conjunct2, THEN conjunct1]
  note bs = splits_and_loaders[of "demo_world bs_config (PObj 2000)",
      THEN conjunct2, THEN conjunct2]
  from ft[rule_format, OF ft_demo_completes]
  have 1: "\<exists>t tt. fst (hd (select data_event (log_of run_factor_transfer (demo_world ft_config PNone)))) =
      dataset_call ''CIFAR10'' ''./data'' 0.1 t tt [(''random_seed'', PInt 42)]"
    by (elim exE) (simp, blast)
  from cn[rule_format, OF cn_demo_completes]
  have 2: "\<exists>t tt. fst (hd (select data_event (log_of run_chipnet (demo_world cn_config PNone)))) =
      dataset_call ''CIFAR10'' ''/content/data_dir'' 0.2 t tt []"
    by (elim exE) (simp, blast)
  from bs[rule_format, OF bs_demo_completes]
  have 3: "\<exists>t tt. fst (hd (select data_event (log_of run_bitsplit (demo_world bs_config (PObj 2000))))) =
      dataset_call ''CIFAR100'' ''./data'' 0.2 t tt []"
    by (elim exE) (simp, blast)
  from 1 2 3 ft_demo_completes cn_demo_completes bs_demo_completes
  show ?thesis by (intro conjI)
qed

text \<open>
  Claim C8. In the ChipNet notebook the ResNet-18 state dict that is downloaded is bound
  to \<^verbatim>\<open>weights\<close> and never applied to the model: the model passed to \<^verbatim>\<open>ChipNet\<close>
  has the parameters \<^verbatim>\<open>ModelsFactory.create_model\<close> gave it.

  In every run that reaches the last cell, the events that create, fetch or touch a model
  are four: \<^verbatim>\<open>create_model('resnet18', 10, False, insize=32)\<close>, the download, the
  constructor and \<^verbatim>\<open>compress_model()\<close>. The first argument of the constructor is what
  \<^verbatim>\<open>create_model\<close> returned, and no method of it is called in between. What the
  download returned is an argument of no event. In no run at all, complete or not, is
  there a \<^verbatim>\<open>load_state_dict\<close>.
\<close>

theorem chipnet_weights_never_applied:
  "(completes run_chipnet w \<longrightarrow>
      (\<exists>model weights loaders kw a r.
         select model_event (log_of run_chipnet w) =
           [(Call ''ModelsFactory.create_model'' [PStr ''resnet18'', PInt 10, PBool False]
               [(''insize'', PInt 32)], Inr model),
            (Call ''load_state_dict_from_url'' [PStr cn_pretrained_weights] [], Inr weights),
            (Call ''ChipNet'' [model, loaders] kw, Inr a),
            (Method a ''compress_model'' [] [], Inr r)])) \<and>
   emits (\<lambda>ev. \<not> named [''load_state_dict''] ev) run_chipnet"
proof (intro conjI impI)
  assume "completes run_chipnet w"
  then obtain y where "run_chipnet w [] = (Inr y, log_of run_chipnet w)"
    by (rule completesE)
  then show "\<exists>model weights loaders kw a r.
         select model_event (log_of run_chipnet w) =
           [(Call ''ModelsFactory.create_model'' [PStr ''resnet18'', PInt 10, PBool False]
               [(''insize'', PInt 32)], Inr model),
            (Call ''load_state_dict_from_url'' [PStr cn_pretrained_weights] [], Inr weights),
            (Call ''ChipNet'' [model, loaders] kw, Inr a),
            (Method a ''compress_model'' [] [], Inr r)]"
    by (rule cn_run_model)
qed (rule cn_never_loads)

theorem chipnet_weights_never_applied_witness:
  "completes run_chipnet (demo_world cn_config PNone) \<and>
   (\<exists>model weights loaders kw a r.
      select model_event (log_of run_chipnet (demo_world cn_config PNone)) =
        [(Call ''ModelsFactory.create_model'' [PStr ''resnet18'', PInt 10, PBool False]
            [(''insize'', PInt 32)], Inr model),
         (Call ''load_state_dict_from_url'' [PStr cn_pretrained_weights] [], Inr weights),
         (Call ''ChipNet'' [model, loaders] kw, Inr a),
         (Method a ''compress_model'' [] [], Inr r)])"
  using chipnet_weights_never_applied[of "demo_world cn_config PNone", THEN conjunct1]
    cn_demo_completes
  by (intro conjI) blast+




end
